theory Spec2Isabelle
  imports Complex_Main
begin

section \<open>Python values shared by both source files\<close>

text \<open>
  Exceptions of the source are values. Only the classes that the modelled statements
  can raise are listed. Tensor elements are idealised: a float is a \<open>real\<close>, a
  label (an int64 element, never negative in the data this code sees) is a \<open>nat\<close>.
  A tensor is a nested list; every tensor that the code can hold is rectangular.
\<close>

datatype py_error =
  ValueError | IndexError | AttributeError | RuntimeError | ZeroDivisionError | AssertionError

section \<open>\<open>collections.deque\<close> with a \<open>maxlen\<close>\<close>

record 'a deque =
  maxlen :: nat
  items :: "'a list"

text \<open>\<open>deque.append\<close>: the item goes to the right end, and a deque that has grown
  beyond \<open>maxlen\<close> drops its leftmost item (for \<open>maxlen = 0\<close> that is the item
  just appended).\<close>

definition deque_append :: "'a deque \<Rightarrow> 'a \<Rightarrow> 'a deque" where
  "deque_append q x =
     (let ys = items q @ [x]
      in q\<lparr>items := (if maxlen q < length ys then tl ys else ys)\<rparr>)"

text \<open>\<open>deque(iterable, maxlen)\<close> appends the items of the iterable one by one.\<close>

definition deque_new :: "'a list \<Rightarrow> nat \<Rightarrow> 'a deque" where
  "deque_new xs m = foldl deque_append \<lparr>maxlen = m, items = []\<rparr> xs"

section \<open>\<open>proto_estimator.py\<close>: class \<open>ProtoEstimator\<close>\<close>

text \<open>
  What \<open>torch.load\<close> returned for the key \<open>'MemoryBank'\<close>: a tensor, which has a
  method \<open>cuda\<close>, or a pickled Python list of deques, which has none.
\<close>

datatype pickled = PTensor "real list list list" | PDeques "real list deque list"

record checkpoint =
  ck_CoVariance :: "real list list"
  ck_Ave :: "real list list"
  ck_Amount :: "real list"
  ck_MemoryBank :: "pickled option"

text \<open>
  The attribute \<open>self.MemoryBank\<close>: never assigned, the list of deques built by the
  constructor, or the tensor taken from a checkpoint.
\<close>

datatype memory_bank =
    NoAttribute
  | DequeList "real list deque list"
  | Loaded "real list list list"

record ProtoEstimator =
  dim :: nat
  class_num :: nat
  CoVariance :: "real list list"
  Ave :: "real list list"
  Amount :: "real list"
  MemoryBank :: memory_bank

definition zeros2 :: "nat \<Rightarrow> nat \<Rightarrow> real list list" where
  "zeros2 n m = replicate n (replicate m 0)"

text \<open>
  \<open>ProtoEstimator.__init__(dim, class_num, memory_length, resume)\<close>. \<open>resume\<close> is the
  loaded checkpoint, \<open>None\<close> for the empty path. A queue entry \<open>Ave[cls].unsqueeze(0)\<close>
  is a tensor of shape \<open>[1, dim]\<close>, kept here as its one row. \<open>deque\<close> rejects a
  negative \<open>maxlen\<close>; with \<open>class_num = 0\<close> the comprehension builds no deque.
\<close>

definition ProtoEstimator_init ::
  "nat \<Rightarrow> nat \<Rightarrow> int \<Rightarrow> checkpoint option \<Rightarrow> py_error + ProtoEstimator" where
  "ProtoEstimator_init d c memory_length resume =
     (case resume of
        Some ck \<Rightarrow>
          (case ck_MemoryBank ck of
             None \<Rightarrow>
               Inr \<lparr>dim = d, class_num = c, CoVariance = ck_CoVariance ck, Ave = ck_Ave ck,
                    Amount = ck_Amount ck, MemoryBank = NoAttribute\<rparr>
           | Some (PTensor t) \<Rightarrow>
               Inr \<lparr>dim = d, class_num = c, CoVariance = ck_CoVariance ck, Ave = ck_Ave ck,
                    Amount = ck_Amount ck, MemoryBank = Loaded t\<rparr>
           | Some (PDeques qs) \<Rightarrow> Inl AttributeError)
      | None \<Rightarrow>
          (if 0 < c \<and> memory_length < 0 then Inl ValueError
           else Inr \<lparr>dim = d, class_num = c, CoVariance = zeros2 c d, Ave = zeros2 c d,
                     Amount = replicate c 0,
                     MemoryBank = DequeList
                       (map (\<lambda>cls. deque_new [zeros2 c d ! cls] (nat memory_length)) [0..<c])\<rparr>))"

subsection \<open>\<open>update_proto\<close>\<close>

text \<open>\<open>features.size()\<close>: \<open>N\<close> rows of \<open>A\<close> columns.\<close>

definition ncols :: "real list list \<Rightarrow> nat" where
  "ncols features = (case features of [] \<Rightarrow> 0 | f # _ \<Rightarrow> length f)"

text \<open>
  \<open>onehot = zeros(N, C); onehot.scatter_(1, labels.view(-1, 1), 1)\<close>: row \<open>n\<close> gets a
  1 in column \<open>labels[n]\<close>. \<open>scatter_\<close> raises when the index has more rows than
  \<open>onehot\<close> or holds a column outside \<open>0..C-1\<close>.
\<close>

definition onehot_row :: "nat \<Rightarrow> nat \<Rightarrow> real list" where
  "onehot_row C l = map (\<lambda>c. if c = l then 1 else 0) [0..<C]"

definition scatter_onehot :: "nat \<Rightarrow> nat \<Rightarrow> nat list \<Rightarrow> py_error + real list list" where
  "scatter_onehot N C labels =
     (if N < length labels \<or> (\<exists>l \<in> set labels. C \<le> l) then Inl RuntimeError
      else Inr (map (onehot_row C) labels @ replicate (N - length labels) (replicate C 0)))"

text \<open>\<open>onehot.view(N, C, 1).expand(N, C, A)\<close>.\<close>

definition NxCxA_onehot :: "nat \<Rightarrow> real list list \<Rightarrow> real list list list" where
  "NxCxA_onehot A onehot = map (\<lambda>row. map (\<lambda>v. replicate A v) row) onehot"

text \<open>\<open>features.view(N, 1, A).expand(N, C, A)\<close>.\<close>

definition NxCxA_Features :: "nat \<Rightarrow> real list list \<Rightarrow> real list list list" where
  "NxCxA_Features C features = map (\<lambda>f. replicate C f) features"

text \<open>Elementwise product of two tensors of shape \<open>[N, C, A]\<close>.\<close>

definition mul3 :: "real list list list \<Rightarrow> real list list list \<Rightarrow> real list list list" where
  "mul3 x y = map (\<lambda>(xn, yn). map (\<lambda>(xc, yc). map (\<lambda>(a, b). a * b) (zip xc yc)) (zip xn yn)) (zip x y)"

text \<open>\<open>t.sum(0)\<close> of a tensor of shape \<open>[N, C, A]\<close>: shape \<open>[C, A]\<close>.\<close>

definition sum0 :: "nat \<Rightarrow> nat \<Rightarrow> real list list list \<Rightarrow> real list list" where
  "sum0 C A t = map (\<lambda>c. map (\<lambda>a. sum_list (map (\<lambda>tn. tn ! c ! a) t)) [0..<A]) [0..<C]"

text \<open>\<open>Amount_CxA[Amount_CxA == 0] = 1\<close>.\<close>

definition zero_to_one :: "real list list \<Rightarrow> real list list" where
  "zero_to_one t = map (map (\<lambda>x. if x = 0 then 1 else x)) t"

text \<open>Elementwise quotient of two tensors of shape \<open>[C, A]\<close>.\<close>

definition div2 :: "real list list \<Rightarrow> real list list \<Rightarrow> real list list" where
  "div2 x y = map (\<lambda>(xc, yc). map (\<lambda>(a, b). a / b) (zip xc yc)) (zip x y)"

definition ave_CxA :: "nat \<Rightarrow> real list list \<Rightarrow> real list list \<Rightarrow> real list list" where
  "ave_CxA C features onehot =
     (let A = ncols features;
          features_by_sort = mul3 (NxCxA_Features C features) (NxCxA_onehot A onehot);
          Amount_CxA = zero_to_one (sum0 C A (NxCxA_onehot A onehot))
      in div2 (sum0 C A features_by_sort) Amount_CxA)"

text \<open>\<open>torch.unique(labels)\<close>: the distinct labels, ascending.\<close>

definition unique :: "nat list \<Rightarrow> nat list" where
  "unique labels = sort (remdups labels)"

text \<open>
  The loop \<open>for cls in torch.unique(labels): self.MemoryBank[cls].append(...)\<close>. It
  returns the exception, if one was raised, with the bank as the loop left it.
\<close>

fun append_protos ::
  "memory_bank \<Rightarrow> real list list \<Rightarrow> nat list \<Rightarrow> py_error option \<times> memory_bank" where
  "append_protos bank ave [] = (None, bank)"
| "append_protos NoAttribute ave (cls # rest) = (Some AttributeError, NoAttribute)"
| "append_protos (Loaded t) ave (cls # rest) =
     (if cls < length t then (Some AttributeError, Loaded t) else (Some IndexError, Loaded t))"
| "append_protos (DequeList qs) ave (cls # rest) =
     (if cls < length qs
      then append_protos (DequeList (qs[cls := deque_append (qs ! cls) (ave ! cls)])) ave rest
      else (Some IndexError, DequeList qs))"

definition update_proto ::
  "ProtoEstimator \<Rightarrow> real list list \<Rightarrow> nat list \<Rightarrow> py_error option \<times> ProtoEstimator" where
  "update_proto self features labels =
     (let N = length features; C = class_num self
      in case scatter_onehot N C labels of
           Inl e \<Rightarrow> (Some e, self)
         | Inr onehot \<Rightarrow>
             (case append_protos (MemoryBank self) (ave_CxA C features onehot) (unique labels) of
                (r, bank) \<Rightarrow> (r, self\<lparr>MemoryBank := bank\<rparr>)))"

text \<open>A session: updates applied one after the other until one raises.\<close>

fun update_protos ::
  "ProtoEstimator \<Rightarrow> (real list list \<times> nat list) list \<Rightarrow> py_error option \<times> ProtoEstimator" where
  "update_protos self [] = (None, self)"
| "update_protos self ((features, labels) # batches) =
     (case update_proto self features labels of
        (None, self') \<Rightarrow> update_protos self' batches
      | (Some e, self') \<Rightarrow> (Some e, self'))"

text \<open>Reading the queue of a class: \<open>self.MemoryBank[cls]\<close> as a list of entries.\<close>

definition read_queue :: "ProtoEstimator \<Rightarrow> nat \<Rightarrow> py_error + real list list" where
  "read_queue self cls =
     (case MemoryBank self of
        NoAttribute \<Rightarrow> Inl AttributeError
      | Loaded t \<Rightarrow> (if cls < length t then Inr (t ! cls) else Inl IndexError)
      | DequeList qs \<Rightarrow> (if cls < length qs then Inr (items (qs ! cls)) else Inl IndexError))"

text \<open>
  The specification's words for an update: the mean feature vector over the pixels of a
  class in the batch, and the last \<open>n\<close> items of a history.
\<close>

definition class_rows :: "real list list \<Rightarrow> nat list \<Rightarrow> nat \<Rightarrow> real list list" where
  "class_rows features labels cls = map fst (filter (\<lambda>(f, l). l = cls) (zip features labels))"

definition class_mean :: "real list list \<Rightarrow> nat list \<Rightarrow> nat \<Rightarrow> real list" where
  "class_mean features labels cls =
     (let rows = class_rows features labels cls
      in map (\<lambda>a. sum_list (map (\<lambda>r. r ! a) rows) / real (length rows)) [0..<ncols features])"

definition lastn :: "nat \<Rightarrow> 'a list \<Rightarrow> 'a list" where
  "lastn n xs = drop (length xs - n) xs"

text \<open>A feature tensor is rectangular: every row has \<open>A\<close> columns.\<close>

definition rect :: "real list list \<Rightarrow> bool" where
  "rect features = (\<forall>f \<in> set features. length f = ncols features)"

text \<open>The one-hot matrix that \<open>scatter_onehot\<close> returns, with \<open>k\<close> rows left at zero.\<close>

definition onehot_of :: "nat \<Rightarrow> nat \<Rightarrow> nat list \<Rightarrow> real list list" where
  "onehot_of k C labels = map (onehot_row C) labels @ replicate k (replicate C 0)"

text \<open>
  The entries a class has received in a session: the zero vector of the constructor,
  then the class mean of every batch in which the class occurs, in order.
\<close>

definition history :: "nat \<Rightarrow> (real list list \<times> nat list) list \<Rightarrow> nat \<Rightarrow> real list list" where
  "history d batches cls =
     replicate d 0 # map (\<lambda>(f, l). class_mean f l cls) (filter (\<lambda>(f, l). cls \<in> set l) batches)"

text \<open>Invariants of a bank of deques: each queue holds the last \<open>m\<close> items of its
  history; each queue is within its capacity and, for a positive capacity, not empty.\<close>

definition tracks :: "nat \<Rightarrow> nat \<Rightarrow> (nat \<Rightarrow> real list list) \<Rightarrow> ProtoEstimator \<Rightarrow> bool" where
  "tracks c m H self =
     (class_num self = c \<and>
      (\<exists>qs. MemoryBank self = DequeList qs \<and> length qs = c \<and>
            (\<forall>k < c. maxlen (qs ! k) = m \<and> items (qs ! k) = lastn m (H k))))"

definition bounded :: "nat \<Rightarrow> nat \<Rightarrow> ProtoEstimator \<Rightarrow> bool" where
  "bounded c m self =
     (class_num self = c \<and>
      (\<exists>qs. MemoryBank self = DequeList qs \<and> length qs = c \<and>
            (\<forall>k < c. maxlen (qs ! k) = m \<and> length (items (qs ! k)) \<le> m \<and>
                      (0 < m \<longrightarrow> items (qs ! k) \<noteq> []))))"

text \<open>The scenario of the specification: one class receives four means in a row.\<close>

definition scenario :: "(real list list \<times> nat list) list" where
  "scenario = [([[1]], [2]), ([[2]], [2]), ([[3]], [2]), ([[4]], [2])]"

section \<open>\<open>dacs.py\<close>: class \<open>DACS\<close>\<close>

subsection \<open>Pseudo-label generation (\<open>forward_train\<close>, after the teacher's softmax)\<close>

text \<open>
  \<open>torch.max(ema_softmax, dim=1)\<close> on a tensor of shape \<open>[B, C, H, W]\<close>: for every
  pixel the largest value over the channels and the first channel that has it. One
  image is reduced channel by channel; the reduction raises when there is no channel.
\<close>

fun max_channels ::
  "nat \<Rightarrow> (real \<times> nat) list list \<Rightarrow> real list list list \<Rightarrow> (real \<times> nat) list list" where
  "max_channels k acc [] = acc"
| "max_channels k acc (ch # chs) =
     max_channels (Suc k)
       (map (\<lambda>(arow, crow). map (\<lambda>((m, i), v). if m < v then (v, k) else (m, i)) (zip arow crow))
            (zip acc ch))
       chs"

definition max_image :: "real list list list \<Rightarrow> (real \<times> nat) list list" where
  "max_image im =
     (case im of [] \<Rightarrow> [] | ch # chs \<Rightarrow> max_channels 1 (map (map (\<lambda>v. (v, 0))) ch) chs)"

definition max_dim1 ::
  "real list list list list \<Rightarrow> py_error + (real list list list \<times> nat list list list)" where
  "max_dim1 t =
     (if \<exists>im \<in> set t. im = [] then Inl RuntimeError
      else Inr (map (\<lambda>im. map (map fst) (max_image im)) t,
                map (\<lambda>im. map (map snd) (max_image im)) t))"

text \<open>The number of elements of a tensor of shape \<open>[B, H, W]\<close> (\<open>np.size\<close>).\<close>

definition numel3 :: "'a list list list \<Rightarrow> nat" where
  "numel3 t = sum_list (map (\<lambda>im. sum_list (map length im)) t)"

text \<open>\<open>torch.sum(pseudo_prob.ge(pseudo_threshold).long() == 1).item()\<close>.\<close>

definition count_ge :: "real \<Rightarrow> real list list list \<Rightarrow> nat" where
  "count_ge thr t =
     sum_list (map (\<lambda>im. sum_list (map (\<lambda>row. length (filter (\<lambda>p. thr \<le> p) row)) im)) t)"

text \<open>
  \<open>pseudo_weight[:, :top, :] = 0\<close> and \<open>pseudo_weight[:, -bottom:, :] = 0\<close> for
  positive \<open>top\<close> and \<open>bottom\<close>: a slice reaches no further than the tensor.
\<close>

definition zero_top :: "nat \<Rightarrow> real list list list \<Rightarrow> real list list list" where
  "zero_top ntop t =
     map (\<lambda>im. map (\<lambda>(h, row). if h < ntop then map (\<lambda>x. 0) row else row)
                        (zip [0..<length im] im)) t"

definition zero_bottom :: "nat \<Rightarrow> real list list list \<Rightarrow> real list list list" where
  "zero_bottom bottom t =
     map (\<lambda>im. map (\<lambda>(h, row). if length im - bottom \<le> h then map (\<lambda>x. 0) row else row)
                        (zip [0..<length im] im)) t"

record pseudo =
  pseudo_prob :: "real list list list"
  pseudo_label :: "nat list list list"
  pseudo_weight_scalar :: real
  pseudo_weight :: "real list list list"

text \<open>
  Lines 285 to 298 of \<open>forward_train\<close>. \<open>pseudo_weight_scalar\<close> is the source's
  \<open>pseudo_weight_\<close>, a Python float: the quotient of two ints, which raises for an
  empty batch.
\<close>

definition generate_pseudo ::
  "real \<Rightarrow> int \<Rightarrow> int \<Rightarrow> real list list list list \<Rightarrow> py_error + pseudo" where
  "generate_pseudo pseudo_threshold psweight_ignore_top psweight_ignore_bottom ema_softmax =
     (case max_dim1 ema_softmax of
        Inl e \<Rightarrow> Inl e
      | Inr (prob, label) \<Rightarrow>
          (let ps_size = numel3 label
           in if ps_size = 0 then Inl ZeroDivisionError
              else
                (let w = real (count_ge pseudo_threshold prob) / real ps_size;
                     pw0 = map (map (map (\<lambda>p. w * 1))) prob;
                     pw1 = (if 0 < psweight_ignore_top
                            then zero_top (nat psweight_ignore_top) pw0 else pw0);
                     pw2 = (if 0 < psweight_ignore_bottom
                            then zero_bottom (nat psweight_ignore_bottom) pw1 else pw1)
                 in Inr \<lparr>pseudo_prob = prob, pseudo_label = label,
                         pseudo_weight_scalar = w, pseudo_weight = pw2\<rparr>)))"

text \<open>The shape of a tensor \<open>[B, H, W]\<close>, as the lengths of its rows.\<close>

definition shape3 :: "'a list list list \<Rightarrow> nat list list" where
  "shape3 t = map (map length) t"

text \<open>
  The scenario of the specification: one target image of 4 by 4 pixels and two classes,
  with a confidence of at least 0.9 on the four pixels of the top row only.
\<close>

definition softmax_4x4 :: "real list list list list" where
  "softmax_4x4 =
     [[[[19/20, 19/20, 19/20, 19/20], [3/5, 3/5, 3/5, 3/5], [3/5, 3/5, 3/5, 3/5], [3/5, 3/5, 3/5, 3/5]],
       [[1/20, 1/20, 1/20, 1/20], [2/5, 2/5, 2/5, 2/5], [2/5, 2/5, 2/5, 2/5], [2/5, 2/5, 2/5, 2/5]]]]"

definition pseudo_4x4 :: "int \<Rightarrow> int \<Rightarrow> pseudo" where
  "pseudo_4x4 itop ibot =
     \<lparr>pseudo_prob = [[[19/20, 19/20, 19/20, 19/20], [3/5, 3/5, 3/5, 3/5], [3/5, 3/5, 3/5, 3/5], [3/5, 3/5, 3/5, 3/5]]],
      pseudo_label = [[[0, 0, 0, 0], [0, 0, 0, 0], [0, 0, 0, 0], [0, 0, 0, 0]]],
      pseudo_weight_scalar = 1/4,
      pseudo_weight = [[if 0 < itop then [0, 0, 0, 0] else [1/4, 1/4, 1/4, 1/4],
                        [1/4, 1/4, 1/4, 1/4], [1/4, 1/4, 1/4, 1/4],
                        if 0 < ibot then [0, 0, 0, 0] else [1/4, 1/4, 1/4, 1/4]]]\<rparr>"

subsection \<open>Domain mixing\<close>

text \<open>
  Modelled from the spec: \<open>strong_transform\<close> of
  \<open>mmseg/models/utils/dacs_transforms.py\<close>, which is not among the sources. The
  specification (4.2) composites with the mix mask (mask=1 keeps source content, mask=0
  keeps target content), alike for image, label and weight, and applies the shared
  strong-augmentation transform (color jitter, blur) to the composite image only.
  \<open>data\<close> and \<open>target\<close> are the stacked pairs (source, target) of the call, each
  optional; \<open>augment\<close> is the augmentation with the parameters drawn for the step.
\<close>

definition one_mix :: "nat list list \<Rightarrow> 'a list list \<Rightarrow> 'a list list \<Rightarrow> 'a list list" where
  "one_mix mk src tgt =
     map (\<lambda>(mrow, srow, trow). map (\<lambda>(m, s, t). if m = 1 then s else t) (zip mrow (zip srow trow)))
         (zip mk (zip src tgt))"

record strong_parameters =
  mix :: "nat list list"
  augment :: "real list list list \<Rightarrow> real list list list"

definition strong_transform ::
  "strong_parameters \<Rightarrow> (real list list list \<times> real list list list) option \<Rightarrow>
   ('a list list \<times> 'a list list) option \<Rightarrow> real list list list option \<times> 'a list list option" where
  "strong_transform param data target =
     (map_option (\<lambda>(s, t). augment param (map (\<lambda>(sc, tc). one_mix (mix param) sc tc) (zip s t))) data,
      map_option (\<lambda>(s, t). one_mix (mix param) s t) target)"

text \<open>
  The loop of lines 306 to 314, over the indices of the source batch. The state of the
  loop is \<open>mixed_img\<close>, \<open>mixed_lbl\<close> and \<open>pseudo_weight\<close>, which is overwritten
  sample by sample. An index beyond a list or a tensor raises \<open>IndexError\<close>, and
  \<open>torch.stack\<close> raises on two tensors of different shapes.
\<close>

record mix_input =
  img :: "real list list list list"
  gt_semantic_seg :: "nat list list list list"
  target_img :: "real list list list list"
  mix_masks :: "nat list list list"
  mix_pseudo_label :: "nat list list list"
  gt_pixel_weight :: "real list list list"

fun mix_loop ::
  "(real list list list \<Rightarrow> real list list list) \<Rightarrow> mix_input \<Rightarrow> nat list \<Rightarrow>
   real list list list list \<times> nat list list list \<times> real list list list \<Rightarrow>
   py_error + real list list list list \<times> nat list list list \<times> real list list list" where
  "mix_loop aug x [] st = Inr st"
| "mix_loop aug x (i # rest) (mixed_img, mixed_lbl, pw) =
     (if length (mix_masks x) \<le> i \<or> length (target_img x) \<le> i \<or>
         length (gt_semantic_seg x) \<le> i \<or> length (mix_pseudo_label x) \<le> i \<or>
         length (gt_pixel_weight x) \<le> i \<or> length pw \<le> i \<or> gt_semantic_seg x ! i = []
      then Inl IndexError
      else if shape3 (img x ! i) \<noteq> shape3 (target_img x ! i) \<or>
              map length (gt_semantic_seg x ! i ! 0) \<noteq> map length (mix_pseudo_label x ! i) \<or>
              map length (gt_pixel_weight x ! i) \<noteq> map length (pw ! i)
      then Inl RuntimeError
      else
        (let param = \<lparr>mix = mix_masks x ! i, augment = aug\<rparr>
         in case (strong_transform param (Some (img x ! i, target_img x ! i))
                    (Some (gt_semantic_seg x ! i ! 0, mix_pseudo_label x ! i)),
                  strong_transform param None (Some (gt_pixel_weight x ! i, pw ! i))) of
              ((Some d, Some t), (_, Some t2)) \<Rightarrow>
                mix_loop aug x rest (mixed_img @ [d], mixed_lbl @ [t], pw[i := t2])
            | _ \<Rightarrow> Inl ValueError))"

text \<open>
  Lines 299 to 316: \<open>gt_pixel_weight\<close> is all ones in the shape of \<open>pseudo_weight\<close>,
  and \<open>torch.cat\<close> of an empty list (an empty source batch) raises.
\<close>

definition apply_mixing ::
  "(real list list list \<Rightarrow> real list list list) \<Rightarrow> real list list list list \<Rightarrow>
   nat list list list list \<Rightarrow> real list list list list \<Rightarrow> nat list list list \<Rightarrow>
   nat list list list \<Rightarrow> real list list list \<Rightarrow>
   py_error + real list list list list \<times> nat list list list \<times> real list list list" where
  "apply_mixing aug im gt timg masks plabel pw =
     (let batch_size = length im;
          x = \<lparr>img = im, gt_semantic_seg = gt, target_img = timg, mix_masks = masks,
               mix_pseudo_label = plabel, gt_pixel_weight = map (map (map (\<lambda>v. 1))) pw\<rparr>
      in case mix_loop aug x [0..<batch_size] ([], [], pw) of
           Inl e \<Rightarrow> Inl e
         | Inr (mixed_img, mixed_lbl, pw') \<Rightarrow>
             if batch_size = 0 then Inl RuntimeError else Inr (mixed_img, mixed_lbl, pw'))"

subsection \<open>The training step\<close>

type_synonym loss_dict = "(string \<times> real) list"

text \<open>Python dictionaries of losses: \<open>d[k] = v\<close>, \<open>d.update(e)\<close>, \<open>d.pop(k, None)\<close>.\<close>

fun dict_set :: "loss_dict \<Rightarrow> string \<Rightarrow> real \<Rightarrow> loss_dict" where
  "dict_set [] k v = [(k, v)]"
| "dict_set ((k', v') # d) k v = (if k' = k then (k, v) # d else (k', v') # dict_set d k v)"

definition dict_update :: "loss_dict \<Rightarrow> loss_dict \<Rightarrow> loss_dict" where
  "dict_update d e = foldl (\<lambda>acc (k, v). dict_set acc k v) d e"

definition dict_pop :: "loss_dict \<Rightarrow> string \<Rightarrow> loss_dict" where
  "dict_pop d k = filter (\<lambda>(k', v). k' \<noteq> k) d"

text \<open>
  The five places where \<open>forward_train\<close> calls \<open>backward()\<close>. The gradient buffers of
  the student are kept as the list of these calls, each with the dictionary of losses
  that went through \<open>_parse_losses\<close> into the scalar that was back-propagated.
\<close>

datatype loss_term = SourceSeg | FeatDist | MixSeg | Contrastive | Distill

text \<open>
  What the code outside the two source files returns in one step: the loss bookkeeping
  of the base class, the student and teacher networks, the random class masks and
  augmentation, the contrastive helpers and the divergence of the two target outputs.
  Each is taken to return; none is given a meaning here.
\<close>

record collaborators =
  parse_losses :: "loss_dict \<Rightarrow> real \<times> loss_dict"
  add_prefix :: "loss_dict \<Rightarrow> string \<Rightarrow> loss_dict"
  student_source_losses :: "real list list list list \<Rightarrow> nat list list list list \<Rightarrow> loss_dict"
  student_mix_losses ::
    "real list list list list \<Rightarrow> nat list list list \<Rightarrow> real list list list \<Rightarrow> loss_dict"
  masked_feat_dist :: real
  teacher_softmax :: "real list list list list \<Rightarrow> real list list list list"
  get_class_masks :: "nat list list list list \<Rightarrow> nat list list list"
  augmentation :: "real list list list \<Rightarrow> real list list list"
  contrast_preparations :: "nat list list list list \<Rightarrow> real list list \<times> nat list"
  bank_contrastive :: "nat list list list list \<Rightarrow> memory_bank \<Rightarrow> real"
  kl_div :: real

record dacs =
  local_iter :: nat
  start_distribution_iter :: nat
  pseudo_threshold :: real
  psweight_ignore_top :: int
  psweight_ignore_bottom :: int
  fdist_lambda :: real
  enable_fdist :: bool
  debug_img_interval :: int
  feat_distributions :: ProtoEstimator
  backward_calls :: "(loss_term \<times> loss_dict) list"

record dacs_cfg =
  cfg_pseudo_threshold :: real
  cfg_pseudo_weight_ignore_top :: int
  cfg_pseudo_weight_ignore_bottom :: int
  cfg_imnet_feature_dist_lambda :: real
  cfg_mix :: string
  cfg_debug_img_interval :: int

text \<open>\<open>DACS.__init__\<close>, as far as the step reads what it sets.\<close>

definition DACS_init :: "dacs_cfg \<Rightarrow> py_error + dacs" where
  "DACS_init cfg =
     (if cfg_mix cfg \<noteq> ''class'' then Inl AssertionError
      else case ProtoEstimator_init 512 19 200 None of
             Inl e \<Rightarrow> Inl e
           | Inr est \<Rightarrow>
               Inr \<lparr>local_iter = 0, start_distribution_iter = 50,
                    pseudo_threshold = cfg_pseudo_threshold cfg,
                    psweight_ignore_top = cfg_pseudo_weight_ignore_top cfg,
                    psweight_ignore_bottom = cfg_pseudo_weight_ignore_bottom cfg,
                    fdist_lambda = cfg_imnet_feature_dist_lambda cfg,
                    enable_fdist = (0 < cfg_imnet_feature_dist_lambda cfg),
                    debug_img_interval = cfg_debug_img_interval cfg,
                    feat_distributions = est, backward_calls = []\<rparr>)"

text \<open>\<open>loss.backward()\<close> on the scalar parsed from a dictionary of losses.\<close>

definition backward :: "loss_term \<Rightarrow> loss_dict \<Rightarrow> dacs \<Rightarrow> dacs" where
  "backward which losses self = self\<lparr>backward_calls := backward_calls self @ [(which, losses)]\<rparr>"

text \<open>\<open>pseudo_label.view(2, 1, 512, 512)\<close>: raises unless the element counts agree.\<close>

definition view_2_1_512_512 :: "nat list list list \<Rightarrow> py_error + nat list list list list" where
  "view_2_1_512_512 t =
     (if numel3 t \<noteq> 2 * 1 * 512 * 512 then Inl RuntimeError
      else Inr (map (\<lambda>b. [map (\<lambda>h. take 512 (drop ((b * 512 + h) * 512) (concat (concat t))))
                              [0..<512]]) [0..<2]))"

text \<open>
  \<open>forward_train(img, img_metas, gt_semantic_seg, target_img, target_img_metas)\<close>. The
  result is the returned \<open>log_vars\<close> or the exception, together with the object as the
  call left it. Rebuilding the teacher, the optional printing of gradient magnitudes and
  the plotting of debug images are left out; the modulo that decides on the plotting
  raises for an interval of 0.
\<close>

definition forward_train ::
  "collaborators \<Rightarrow> dacs \<Rightarrow> real list list list list \<Rightarrow> nat list list list list \<Rightarrow>
   real list list list list \<Rightarrow> (py_error + loss_dict) \<times> dacs" where
  "forward_train ext self im gt timg =
     (let clean_losses = student_source_losses ext im gt;
          clean_log_vars = snd (parse_losses ext clean_losses);
          log_vars1 = dict_update [] clean_log_vars;
          self1 = backward SourceSeg clean_losses self;
          feat_losses = [(''loss_imnet_feat_dist'', fdist_lambda self * masked_feat_dist ext)];
          feat_log = dict_pop (snd (parse_losses ext feat_losses)) ''loss'';
          log_vars2 = (if enable_fdist self
                       then dict_update log_vars1 (add_prefix ext feat_log ''src'') else log_vars1);
          self2 = (if enable_fdist self then backward FeatDist feat_losses self1 else self1)
      in case generate_pseudo (pseudo_threshold self) (psweight_ignore_top self)
                (psweight_ignore_bottom self) (teacher_softmax ext timg) of
           Inl e \<Rightarrow> (Inl e, self2)
         | Inr ps \<Rightarrow>
        (case apply_mixing (augmentation ext) im gt timg (get_class_masks ext gt)
                (pseudo_label ps) (pseudo_weight ps) of
           Inl e \<Rightarrow> (Inl e, self2)
         | Inr (mixed_img, mixed_lbl, pw) \<Rightarrow>
        (let mix_losses = add_prefix ext (student_mix_losses ext mixed_img mixed_lbl pw) ''mix'';
             mix_log_vars = snd (parse_losses ext mix_losses);
             log_vars3 = dict_update log_vars2 mix_log_vars;
             self3 = backward MixSeg mix_losses self2
         in case view_2_1_512_512 (pseudo_label ps) of
              Inl e \<Rightarrow> (Inl e, self3)
            | Inr pseudo_label_cl \<Rightarrow>
           (case contrast_preparations ext pseudo_label_cl of (feat, lbls) \<Rightarrow>
            case update_proto (feat_distributions self3) feat lbls of
              (Some e, est) \<Rightarrow> (Inl e, self3\<lparr>feat_distributions := est\<rparr>)
            | (None, est) \<Rightarrow>
           (let self4 = self3\<lparr>feat_distributions := est\<rparr>
            in if MemoryBank est = NoAttribute then (Inl AttributeError, self4)
               else
                 (let bank = MemoryBank est;
                      self5 = (if start_distribution_iter self4 \<le> local_iter self4
                               then backward Contrastive
                                      [(''contrastive loss'', bank_contrastive ext pseudo_label_cl bank)]
                                      self4
                               else self4);
                      kl_loss_trg = pseudo_weight_scalar ps * kl_div ext;
                      self6 = backward Distill [(''KL_div_loss_trg'', kl_loss_trg)] self5
                  in if debug_img_interval self6 = 0 then (Inl ZeroDivisionError, self6)
                     else (Inr log_vars3, self6\<lparr>local_iter := local_iter self6 + 1\<rparr>)))))))"

text \<open>The mixed image of sample \<open>i\<close>: the composite, then the augmentation.\<close>

definition mixed_image ::
  "(real list list list \<Rightarrow> real list list list) \<Rightarrow> mix_input \<Rightarrow> nat \<Rightarrow> real list list list" where
  "mixed_image aug x i =
     aug (map (\<lambda>(sc, tc). one_mix (mix_masks x ! i) sc tc) (zip (img x ! i) (target_img x ! i)))"

text \<open>A source sample of 4 by 4 pixels for the scenario, with the mask of its class 5.\<close>

definition src_img_4x4 :: "real list list list list" where
  "src_img_4x4 = [[[[7, 7, 7, 7], [7, 7, 7, 7], [7, 7, 7, 7], [7, 7, 7, 7]]]]"

definition tgt_img_4x4 :: "real list list list list" where
  "tgt_img_4x4 = [[[[9, 9, 9, 9], [9, 9, 9, 9], [9, 9, 9, 9], [9, 9, 9, 9]]]]"

definition src_gt_4x4 :: "nat list list list list" where
  "src_gt_4x4 = [[[[5, 5, 3, 3], [5, 5, 3, 3], [5, 5, 3, 3], [5, 5, 3, 3]]]]"

definition masks_4x4 :: "nat list list list" where
  "masks_4x4 = [[[1, 1, 0, 0], [1, 1, 0, 0], [1, 1, 0, 0], [1, 1, 0, 0]]]"

definition mixed_4x4 ::
  "real list list list list \<times> nat list list list \<times> real list list list" where
  "mixed_4x4 =
     ([[[[7, 7, 9, 9], [7, 7, 9, 9], [7, 7, 9, 9], [7, 7, 9, 9]]]],
      [[[5, 5, 0, 0], [5, 5, 0, 0], [5, 5, 0, 0], [5, 5, 0, 0]]],
      [[[1, 1, 0, 0], [1, 1, 1/4, 1/4], [1, 1, 1/4, 1/4], [1, 1, 1/4, 1/4]]])"

subsection \<open>The teacher before inference\<close>

text \<open>
  Lines 275 to 280: every module of the teacher that is an instance of \<open>_DropoutNd\<close> or
  of \<open>DropPath\<close> gets \<open>training = False\<close>; no other module is touched (the code does
  not call \<open>eval()\<close>). A module is kept as its class and its flag.
\<close>

datatype module_class = DropoutNd | DropPath | OtherModule

record nn_module =
  module_class :: module_class
  training :: bool

definition disable_stochastic_layers :: "nn_module list \<Rightarrow> nn_module list" where
  "disable_stochastic_layers modules =
     map (\<lambda>m. (let m1 = (if module_class m = DropoutNd then m\<lparr>training := False\<rparr> else m)
                in if module_class m1 = DropPath then m1\<lparr>training := False\<rparr> else m1))
         modules"


text \<open>
  The log variables and the backward calls of the source phase of a step, and concrete
  collaborators, configuration and batches on which a step can be run: tensors that are
  constant planes, a teacher whose softmax output is its input, collaborators that
  return fixed losses and an empty contrast batch.
\<close>

definition source_log_vars ::
  "collaborators \<Rightarrow> dacs \<Rightarrow> real list list list list \<Rightarrow> nat list list list list \<Rightarrow> loss_dict" where
  "source_log_vars ext self im gt =
     (let log_vars1 = dict_update [] (snd (parse_losses ext (student_source_losses ext im gt)));
          feat_losses = [(''loss_imnet_feat_dist'', fdist_lambda self * masked_feat_dist ext)];
          feat_log = dict_pop (snd (parse_losses ext feat_losses)) ''loss''
      in if enable_fdist self
         then dict_update log_vars1 (add_prefix ext feat_log ''src'') else log_vars1)"

definition source_calls ::
  "collaborators \<Rightarrow> dacs \<Rightarrow> real list list list list \<Rightarrow> nat list list list list \<Rightarrow>
   (loss_term \<times> loss_dict) list" where
  "source_calls ext self im gt =
     (SourceSeg, student_source_losses ext im gt) #
     (if enable_fdist self
      then [(FeatDist, [(''loss_imnet_feat_dist'', fdist_lambda self * masked_feat_dist ext)])]
      else [])"

definition plane :: "nat \<Rightarrow> nat \<Rightarrow> 'a \<Rightarrow> 'a list list" where
  "plane h w v = replicate h (replicate w v)"

definition ext0 :: collaborators where
  "ext0 = \<lparr>parse_losses = (\<lambda>d. (sum_list (map snd d), d @ [(''loss'', sum_list (map snd d))])),
           add_prefix = (\<lambda>d p. map (\<lambda>(k, v). (p @ ''.'' @ k, v)) d),
           student_source_losses = (\<lambda>im gt. [(''decode.loss_seg'', 2)]),
           student_mix_losses = (\<lambda>im lbl w. [(''decode.loss_seg'', 1)]),
           masked_feat_dist = 0,
           teacher_softmax = (\<lambda>timg. timg),
           get_class_masks = (\<lambda>gt. map hd gt),
           augmentation = (\<lambda>x. x),
           contrast_preparations = (\<lambda>lbl. ([], [])),
           bank_contrastive = (\<lambda>lbl bank. 3),
           kl_div = 5\<rparr>"

definition cfg0 :: "real \<Rightarrow> dacs_cfg" where
  "cfg0 thr = \<lparr>cfg_pseudo_threshold = thr, cfg_pseudo_weight_ignore_top = 0,
              cfg_pseudo_weight_ignore_bottom = 0, cfg_imnet_feature_dist_lambda = 0,
              cfg_mix = ''class'', cfg_debug_img_interval = 1000\<rparr>"

definition dacs0 :: "real \<Rightarrow> nat \<Rightarrow> dacs" where
  "dacs0 thr n = (projr (DACS_init (cfg0 thr)))\<lparr>local_iter := n\<rparr>"

definition tb2 :: "real list list list list" where
  "tb2 = [[plane 512 512 1], [plane 512 512 1]]"

definition gt2 :: "nat list list list list" where
  "gt2 = [[plane 512 512 0], [plane 512 512 0]]"

definition lv0 :: loss_dict where
  "lv0 = [(''decode.loss_seg'', 2), (''loss'', 1), (''mix.decode.loss_seg'', 1)]"

definition tb1 :: "real list list list list" where
  "tb1 = [[plane 1024 512 1]]"

definition gt1 :: "nat list list list list" where
  "gt1 = [[plane 1024 512 0]]"


section \<open>Properties of the memory bank\<close>

lemma maxlen_deque_append: "maxlen (deque_append q x) = maxlen q"
  by (simp add: deque_append_def Let_def)

lemma lastn_snoc:
  "lastn m (hist @ [x]) =
     (let ys = lastn m hist @ [x] in if m < length ys then tl ys else ys)"
proof (cases "length hist < m")
  case True
  then show ?thesis by (simp add: lastn_def Let_def)
next
  case False
  then have le: "m \<le> length hist" by simp
  show ?thesis
  proof (cases "m = 0")
    case True
    then show ?thesis by (simp add: lastn_def Let_def)
  next
    case False
    with le have ne: "drop (length hist - m) hist \<noteq> []" by simp
    have "Suc (length hist) - m = Suc (length hist - m)" using le by simp
    then show ?thesis using le ne False
      by (simp add: lastn_def Let_def tl_append2 tl_drop drop_Suc)
  qed
qed

lemma items_deque_append:
  "items q = lastn (maxlen q) hist \<Longrightarrow> items (deque_append q x) = lastn (maxlen q) (hist @ [x])"
  by (simp add: deque_append_def lastn_snoc Let_def)

lemma length_lastn: "length (lastn m xs) = min m (length xs)"
  by (simp add: lastn_def)

lemma deque_new_single: "deque_new [z] m = \<lparr>maxlen = m, items = lastn m [z]\<rparr>"
  by (cases "m = 0") (simp_all add: deque_new_def deque_append_def lastn_def)


lemma append_protos_DequeList:
  "distinct cs \<Longrightarrow> \<forall>c \<in> set cs. c < length qs \<Longrightarrow>
   append_protos (DequeList qs) ave cs =
     (None, DequeList (map (\<lambda>c. if c \<in> set cs then deque_append (qs ! c) (ave ! c) else qs ! c)
                        [0..<length qs]))"
proof (induction cs arbitrary: qs)
  case Nil
  then show ?case by (simp add: map_nth)
next
  case (Cons c cs)
  let ?qs = "qs[c := deque_append (qs ! c) (ave ! c)]"
  have "append_protos (DequeList qs) ave (c # cs) = append_protos (DequeList ?qs) ave cs"
    using Cons.prems by simp
  also have "\<dots> = (None, DequeList (map (\<lambda>k. if k \<in> set cs then deque_append (?qs ! k) (ave ! k) else ?qs ! k)
                        [0..<length ?qs]))"
    using Cons.prems by (intro Cons.IH) auto
  also have "map (\<lambda>k. if k \<in> set cs then deque_append (?qs ! k) (ave ! k) else ?qs ! k) [0..<length ?qs]
           = map (\<lambda>k. if k \<in> set (c # cs) then deque_append (qs ! k) (ave ! k) else qs ! k) [0..<length qs]"
    using Cons.prems by (auto simp: nth_list_update)
  finally show ?case .
qed

lemma set_unique: "set (unique labels) = set labels"
  by (simp add: unique_def)

lemma distinct_unique: "distinct (unique labels)"
  by (simp add: unique_def)


lemma onehot_row_nth: "c < C \<Longrightarrow> onehot_row C l ! c = (if c = l then 1 else 0)"
  by (simp add: onehot_row_def)

lemma length_onehot_row: "length (onehot_row C l) = C"
  by (simp add: onehot_row_def)

lemma onehot_of_rows: "row \<in> set (onehot_of k C labels) \<Longrightarrow> length row = C"
  by (auto simp: onehot_of_def length_onehot_row)

lemma sum_features_onehot:
  "c < C \<Longrightarrow> length labels \<le> length features \<Longrightarrow>
   sum_list (map (\<lambda>(f, row). f ! a * row ! c) (zip features (onehot_of k C labels)))
     = sum_list (map (\<lambda>r. r ! a) (class_rows features labels c))"
proof (induction labels arbitrary: features)
  case Nil
  have "map (\<lambda>(f, row). f ! a * row ! c) (zip features (replicate k (replicate C 0)))
          = map (\<lambda>f. 0) (take k features)"
    using Nil.prems(1) by (simp add: zip_replicate2 split_def comp_def)
  then show ?case by (simp add: onehot_of_def class_rows_def)
next
  case (Cons l labels)
  then obtain f fs where fs: "features = f # fs" by (cases features) auto
  have "sum_list (map (\<lambda>(f, row). f ! a * row ! c) (zip fs (onehot_of k C labels)))
     = sum_list (map (\<lambda>r. r ! a) (class_rows fs labels c))"
    using Cons.prems fs by (intro Cons.IH) auto
  then show ?case using Cons.prems(1) fs
    by (auto simp: onehot_of_def class_rows_def onehot_row_nth)
qed

lemma sum_onehot:
  "c < C \<Longrightarrow> length labels \<le> length features \<Longrightarrow>
   sum_list (map (\<lambda>row. row ! c) (onehot_of k C labels))
     = real (length (class_rows features labels c))"
proof (induction labels arbitrary: features)
  case Nil
  then show ?case by (simp add: onehot_of_def class_rows_def sum_list_replicate comp_def)
next
  case (Cons l labels)
  then obtain f fs where fs: "features = f # fs" by (cases features) auto
  have "sum_list (map (\<lambda>row. row ! c) (onehot_of k C labels))
     = real (length (class_rows fs labels c))"
    using Cons.prems fs by (intro Cons.IH) auto
  then show ?case using Cons.prems(1) fs
    by (auto simp: onehot_of_def class_rows_def onehot_row_nth sum_list_replicate)
qed

lemma class_rows_nonempty:
  "c \<in> set labels \<Longrightarrow> length labels \<le> length features \<Longrightarrow> class_rows features labels c \<noteq> []"
proof (induction labels arbitrary: features)
  case Nil
  then show ?case by simp
next
  case (Cons l labels)
  then obtain f fs where fs: "features = f # fs" by (cases features) auto
  show ?case
  proof (cases "l = c")
    case True
    then show ?thesis by (simp add: fs class_rows_def)
  next
    case False
    with Cons.prems fs have "class_rows fs labels c \<noteq> []" by (intro Cons.IH) auto
    then show ?thesis using False by (simp add: fs class_rows_def)
  qed
qed

lemma sum0_nth: "c < C \<Longrightarrow> a < A \<Longrightarrow> sum0 C A t ! c ! a = sum_list (map (\<lambda>tn. tn ! c ! a) t)"
  by (simp add: sum0_def)

lemma sum0_onehot:
  assumes "c < C" "a < A" "\<forall>row \<in> set onehot. length row = C"
  shows "sum0 C A (NxCxA_onehot A onehot) ! c ! a = sum_list (map (\<lambda>row. row ! c) onehot)"
proof -
  have "map (\<lambda>tn. tn ! c ! a) (NxCxA_onehot A onehot) = map (\<lambda>row. row ! c) onehot"
    using assms by (auto simp: NxCxA_onehot_def)
  then show ?thesis using assms by (simp add: sum0_nth)
qed

lemma sum0_features_by_sort:
  assumes "c < C" "a < A" "\<forall>row \<in> set onehot. length row = C"
    and "\<forall>f \<in> set features. length f = A"
  shows "sum0 C A (mul3 (NxCxA_Features C features) (NxCxA_onehot A onehot)) ! c ! a
           = sum_list (map (\<lambda>(f, row). f ! a * row ! c) (zip features onehot))"
proof -
  have elt: "map (\<lambda>(xc, yc). map (\<lambda>(u, v). u * v) (zip xc yc))
               (zip (replicate C f) (map (\<lambda>v. replicate A v) row)) ! c ! a = f ! a * row ! c"
    if "(f, row) \<in> set (zip features onehot)" for f row
  proof -
    from that have "f \<in> set features" "row \<in> set onehot"
      by (auto dest: set_zip_leftD set_zip_rightD)
    with assms have "length f = A" "length row = C" by auto
    with assms(1,2) show ?thesis by simp
  qed
  have "map (\<lambda>tn. tn ! c ! a) (mul3 (NxCxA_Features C features) (NxCxA_onehot A onehot))
          = map (\<lambda>(f, row). f ! a * row ! c) (zip features onehot)"
    unfolding mul3_def NxCxA_Features_def NxCxA_onehot_def zip_map_map
    using elt by (auto simp: split_def)
  then show ?thesis using assms by (simp add: sum0_nth)
qed


lemma scatter_onehot_Inr:
  "scatter_onehot N C labels = Inr onehot \<longleftrightarrow>
     length labels \<le> N \<and> (\<forall>l \<in> set labels. l < C) \<and> onehot = onehot_of (N - length labels) C labels"
  by (auto simp: scatter_onehot_def onehot_of_def not_le not_less)

lemma length_sum0: "length (sum0 C A t) = C"
  by (simp add: sum0_def)

lemma length_sum0_nth: "c < C \<Longrightarrow> length (sum0 C A t ! c) = A"
  by (simp add: sum0_def)

lemma ave_CxA_class_mean:
  assumes c: "c < C" and mem: "c \<in> set labels" and len: "length labels \<le> length features"
    and rect: "rect features"
  shows "ave_CxA C features (onehot_of k C labels) ! c = class_mean features labels c"
proof -
  let ?A = "ncols features"
  let ?oh = "onehot_of k C labels"
  let ?S = "sum0 C ?A (mul3 (NxCxA_Features C features) (NxCxA_onehot ?A ?oh))"
  let ?Am = "sum0 C ?A (NxCxA_onehot ?A ?oh)"
  let ?rows = "class_rows features labels c"
  have rows: "\<forall>row \<in> set ?oh. length row = C" by (simp add: onehot_of_rows)
  have feats: "\<forall>f \<in> set features. length f = ?A" using rect by (simp add: rect_def)
  have ne: "real (length ?rows) \<noteq> 0" using class_rows_nonempty [OF mem len] by simp
  have S: "?S ! c ! a = sum_list (map (\<lambda>r. r ! a) ?rows)" if "a < ?A" for a
    using sum0_features_by_sort [OF c that rows feats] sum_features_onehot [OF c len] by simp
  have Am: "?Am ! c ! a = real (length ?rows)" if "a < ?A" for a
    using sum0_onehot [OF c that rows] sum_onehot [OF c len] by simp
  have "ave_CxA C features ?oh ! c
          = map (\<lambda>(x, y). x / y) (zip (?S ! c) (map (\<lambda>x. if x = 0 then 1 else x) (?Am ! c)))"
    using c by (simp add: ave_CxA_def Let_def div2_def zero_to_one_def length_sum0)
  also have "\<dots> = map (\<lambda>a. sum_list (map (\<lambda>r. r ! a) ?rows) / real (length ?rows)) [0..<?A]"
    using c ne by (intro nth_equalityI) (simp_all add: length_sum0_nth S Am)
  finally show ?thesis by (simp add: class_mean_def Let_def)
qed

text \<open>what a successful update does to a bank of deques\<close>

lemma update_proto_DequeList:
  assumes bank: "MemoryBank self = DequeList qs" and qs: "length qs = class_num self"
    and len: "length labels \<le> length features" and lab: "\<forall>l \<in> set labels. l < class_num self"
  shows "update_proto self features labels =
           (None, self\<lparr>MemoryBank := DequeList
              (map (\<lambda>c. if c \<in> set labels
                         then deque_append (qs ! c)
                           (ave_CxA (class_num self) features
                              (onehot_of (length features - length labels) (class_num self) labels) ! c)
                         else qs ! c) [0..<class_num self])\<rparr>)"
proof -
  have sc: "scatter_onehot (length features) (class_num self) labels
              = Inr (onehot_of (length features - length labels) (class_num self) labels)"
    using len lab by (simp add: scatter_onehot_Inr)
  have "\<forall>c \<in> set (unique labels). c < length qs" using lab qs by (simp add: set_unique)
  from append_protos_DequeList [OF distinct_unique this]
  show ?thesis by (simp add: update_proto_def Let_def sc bank set_unique qs)
qed

lemma update_proto_fails:
  assumes "\<not> (length labels \<le> length features \<and> (\<forall>l \<in> set labels. l < class_num self))"
  shows "update_proto self features labels = (Some RuntimeError, self)"
  using assms by (auto simp: update_proto_def Let_def scatter_onehot_def not_le not_less)


lemma tracks_init:
  assumes "ProtoEstimator_init d c memory_length None = Inr self"
  shows "tracks c (nat memory_length) (\<lambda>k. [replicate d 0]) self"
  using assms
  by (auto simp: ProtoEstimator_init_def tracks_def deque_new_single zeros2_def split: if_splits)

lemma tracks_update_ok:
  assumes tr: "tracks c m H self" and ok: "update_proto self features labels = (None, self')"
    and rect: "rect features"
  shows "tracks c m (\<lambda>k. if k \<in> set labels then H k @ [class_mean features labels k] else H k) self'"
proof -
  from tr obtain qs where cn: "class_num self = c" and bank: "MemoryBank self = DequeList qs"
    and len: "length qs = c"
    and q: "\<And>k. k < c \<Longrightarrow> maxlen (qs ! k) = m \<and> items (qs ! k) = lastn m (H k)"
    by (auto simp: tracks_def)
  have valid: "length labels \<le> length features \<and> (\<forall>l \<in> set labels. l < class_num self)"
    using ok update_proto_fails [of labels features self] by (cases "length labels \<le> length features \<and> (\<forall>l \<in> set labels. l < class_num self)") auto
  then have vl: "length labels \<le> length features" and vc: "\<forall>l \<in> set labels. l < class_num self"
    by auto
  let ?oh = "onehot_of (length features - length labels) (class_num self) labels"
  let ?qs' = "map (\<lambda>k. if k \<in> set labels
                         then deque_append (qs ! k) (ave_CxA (class_num self) features ?oh ! k)
                         else qs ! k) [0..<class_num self]"
  have self': "self' = self\<lparr>MemoryBank := DequeList ?qs'\<rparr>"
    using update_proto_DequeList [OF bank _ vl vc] len cn ok by simp
  have "maxlen (?qs' ! k) = m \<and>
        items (?qs' ! k) = lastn m (if k \<in> set labels then H k @ [class_mean features labels k] else H k)"
    if k: "k < c" for k
  proof (cases "k \<in> set labels")
    case True
    have "ave_CxA (class_num self) features ?oh ! k = class_mean features labels k"
      using k cn True vl rect by (intro ave_CxA_class_mean) auto
    then show ?thesis using k cn True q [OF k]
      by (simp add: maxlen_deque_append items_deque_append)
  next
    case False
    then show ?thesis using k cn q [OF k] by simp
  qed
  then show ?thesis unfolding tracks_def self' using cn by simp
qed

lemma history_Cons:
  "history d ((f, l) # batches) cls = (if cls \<in> set l then replicate d 0 # class_mean f l cls # tl (history d batches cls) else history d batches cls)"
  by (simp add: history_def)

lemma tracks_update_protos:
  assumes "tracks c m H self" and "update_protos self batches = (None, self')"
    and "\<forall>(f, l) \<in> set batches. rect f"
  shows "tracks c m (\<lambda>k. H k @ map (\<lambda>(f, l). class_mean f l k) (filter (\<lambda>(f, l). k \<in> set l) batches)) self'"
  using assms
proof (induction batches arbitrary: self H)
  case Nil
  then show ?case by simp
next
  case (Cons b batches)
  obtain f l where b: "b = (f, l)" by (cases b)
  from Cons.prems(2) b obtain self1 where
    s1: "update_proto self f l = (None, self1)" and rest: "update_protos self1 batches = (None, self')"
    by (auto split: prod.splits option.splits)
  let ?H1 = "\<lambda>k. if k \<in> set l then H k @ [class_mean f l k] else H k"
  have "tracks c m ?H1 self1"
    using tracks_update_ok [OF Cons.prems(1) s1] Cons.prems(3) b by simp
  from Cons.IH [OF this rest] Cons.prems(3)
  have "tracks c m (\<lambda>k. ?H1 k @ map (\<lambda>(f, l). class_mean f l k) (filter (\<lambda>(f, l). k \<in> set l) batches)) self'"
    by simp
  moreover have "(\<lambda>k. ?H1 k @ map (\<lambda>(f, l). class_mean f l k) (filter (\<lambda>(f, l). k \<in> set l) batches))
      = (\<lambda>k. H k @ map (\<lambda>(f, l). class_mean f l k) (filter (\<lambda>(f, l). k \<in> set l) (b # batches)))"
    by (auto simp: b fun_eq_iff)
  ultimately show ?case by simp
qed

lemma deque_append_bounded:
  "length (items q) \<le> maxlen q \<Longrightarrow> length (items (deque_append q x)) \<le> maxlen q"
  by (auto simp: deque_append_def Let_def)

lemma deque_append_nonempty:
  "0 < maxlen q \<Longrightarrow> items (deque_append q x) \<noteq> []"
  by (cases "items q") (auto simp: deque_append_def Let_def)

lemma bounded_init:
  assumes "ProtoEstimator_init d c memory_length None = Inr self"
  shows "bounded c (nat memory_length) self"
  using assms
  by (auto simp: ProtoEstimator_init_def bounded_def deque_new_single lastn_def split: if_splits)

lemma bounded_update:
  assumes b: "bounded c m self" and up: "update_proto self features labels = (r, self')"
  shows "bounded c m self'"
proof (cases "length labels \<le> length features \<and> (\<forall>l \<in> set labels. l < class_num self)")
  case False
  then show ?thesis using update_proto_fails [OF False] b up by simp
next
  case True
  from b obtain qs where cn: "class_num self = c" and bank: "MemoryBank self = DequeList qs"
    and len: "length qs = c"
    and q: "\<And>k. k < c \<Longrightarrow> maxlen (qs ! k) = m \<and> length (items (qs ! k)) \<le> m \<and> (0 < m \<longrightarrow> items (qs ! k) \<noteq> [])"
    by (auto simp: bounded_def)
  from True have vl: "length labels \<le> length features" and vc: "\<forall>l \<in> set labels. l < class_num self"
    by auto
  have self': "self' = self\<lparr>MemoryBank := DequeList (map (\<lambda>k. if k \<in> set labels
                         then deque_append (qs ! k) (ave_CxA (class_num self) features
                            (onehot_of (length features - length labels) (class_num self) labels) ! k)
                         else qs ! k) [0..<class_num self])\<rparr>"
    using update_proto_DequeList [OF bank _ vl vc] len cn up by simp
  show ?thesis unfolding bounded_def self' using cn q
    by (auto simp: maxlen_deque_append deque_append_nonempty intro: deque_append_bounded)
qed

lemma bounded_update_protos:
  "bounded c m self \<Longrightarrow> update_protos self batches = (r, self') \<Longrightarrow> bounded c m self'"
proof (induction batches arbitrary: self)
  case Nil
  then show ?case by simp
next
  case (Cons b batches)
  obtain f l where b: "b = (f, l)" by (cases b)
  obtain r1 self1 where s1: "update_proto self f l = (r1, self1)" by (cases "update_proto self f l")
  have b1: "bounded c m self1" using bounded_update [OF Cons.prems(1) s1] .
  show ?case
  proof (cases r1)
    case None
    with Cons.prems(2) b s1 have "update_protos self1 batches = (r, self')" by simp
    from Cons.IH [OF b1 this] show ?thesis .
  next
    case (Some e)
    with Cons.prems(2) b s1 have "self' = self1" by simp
    with b1 show ?thesis by simp
  qed
qed

section \<open>Properties of pseudo-label generation\<close>


lemma shape3_map3: "shape3 (map (map (map f)) t) = shape3 t"
  by (simp add: shape3_def comp_def)

lemma zero_rows_shape:
  "map (\<lambda>x. length (case x of (h, row) \<Rightarrow> if P h then map (\<lambda>x. 0) row else row))
       (zip [0..<length im] im)
     = map length im"
  by (rule nth_equalityI) auto

lemma shape3_zero_top: "shape3 (zero_top n t) = shape3 t"
  by (simp add: shape3_def zero_top_def comp_def zero_rows_shape)

lemma shape3_zero_bottom: "shape3 (zero_bottom n t) = shape3 t"
  by (simp add: shape3_def zero_bottom_def comp_def zero_rows_shape)

lemma max_dim1_shape:
  "max_dim1 t = Inr (prob, label) \<Longrightarrow> shape3 prob = shape3 label"
  by (auto simp: max_dim1_def shape3_def comp_def split: if_splits)


lemma zero_top_nth:
  "b < length t \<Longrightarrow> h < length (t ! b) \<Longrightarrow>
   zero_top n t ! b ! h = (if h < n then map (\<lambda>x. 0) (t ! b ! h) else t ! b ! h)"
  by (simp add: zero_top_def)

lemma zero_bottom_nth:
  "b < length t \<Longrightarrow> h < length (t ! b) \<Longrightarrow>
   zero_bottom n t ! b ! h
     = (if length (t ! b) - n \<le> h then map (\<lambda>x. 0) (t ! b ! h) else t ! b ! h)"
  by (simp add: zero_bottom_def)

lemma length_zero_top: "length (zero_top n t) = length t"
  by (simp add: zero_top_def)

lemma length_zero_top_nth: "b < length t \<Longrightarrow> length (zero_top n t ! b) = length (t ! b)"
  by (simp add: zero_top_def)

lemma generate_pseudo_Inr:
  assumes "generate_pseudo thr itop ibot ema_softmax = Inr p"
  shows "max_dim1 ema_softmax = Inr (pseudo_prob p, pseudo_label p) \<and>
         0 < numel3 (pseudo_label p) \<and>
         pseudo_weight_scalar p
           = real (count_ge thr (pseudo_prob p)) / real (numel3 (pseudo_label p)) \<and>
         pseudo_weight p =
           (let pw0 = map (map (map (\<lambda>x. pseudo_weight_scalar p))) (pseudo_prob p);
                pw1 = (if 0 < itop then zero_top (nat itop) pw0 else pw0)
            in if 0 < ibot then zero_bottom (nat ibot) pw1 else pw1)"
  using assms
  by (auto simp: generate_pseudo_def Let_def split: sum.splits if_splits prod.splits)


lemma generate_pseudo_4x4_10: "generate_pseudo (9/10) 1 0 softmax_4x4 = Inr (pseudo_4x4 1 0)"
  by code_simp

lemma generate_pseudo_4x4_11: "generate_pseudo (9/10) 1 1 softmax_4x4 = Inr (pseudo_4x4 1 1)"
  by code_simp

section \<open>Properties of domain mixing\<close>

lemma one_mix_nth:
  assumes "h < length mk" "h < length src" "h < length tgt"
    and "w < length (mk ! h)" "w < length (src ! h)" "w < length (tgt ! h)"
  shows "one_mix mk src tgt ! h ! w = (if mk ! h ! w = 1 then src ! h ! w else tgt ! h ! w)"
  using assms by (simp add: one_mix_def)

lemma mix_loop_Inr:
  assumes "mix_loop aug x idx (mi, ml, pw) = Inr (mi', ml', pw')" and "distinct idx"
  shows "mi' = mi @ map (mixed_image aug x) idx \<and>
         ml' = ml @ map (\<lambda>i. one_mix (mix_masks x ! i) (gt_semantic_seg x ! i ! 0)
                                 (mix_pseudo_label x ! i)) idx \<and>
         length pw' = length pw \<and>
         (\<forall>i < length pw. pw' ! i = (if i \<in> set idx
                                      then one_mix (mix_masks x ! i) (gt_pixel_weight x ! i) (pw ! i)
                                      else pw ! i))"
  using assms
proof (induction idx arbitrary: mi ml pw)
  case Nil
  then show ?case by simp
next
  case (Cons i rest)
  let ?t2 = "one_mix (mix_masks x ! i) (gt_pixel_weight x ! i) (pw ! i)"
  let ?mi = "mi @ [mixed_image aug x i]"
  let ?ml = "ml @ [one_mix (mix_masks x ! i) (gt_semantic_seg x ! i ! 0) (mix_pseudo_label x ! i)]"
  from Cons.prems(1) have i: "i < length pw"
    by (auto split: if_splits)
  from Cons.prems(1) have step: "mix_loop aug x rest (?mi, ?ml, pw[i := ?t2]) = Inr (mi', ml', pw')"
    by (auto simp: strong_transform_def mixed_image_def Let_def split: if_splits)
  from Cons.prems(2) have d: "distinct rest" and ni: "i \<notin> set rest" by auto
  from Cons.IH [OF step d]
  have 1: "mi' = ?mi @ map (mixed_image aug x) rest"
    and 2: "ml' = ?ml @ map (\<lambda>i. one_mix (mix_masks x ! i) (gt_semantic_seg x ! i ! 0)
                                 (mix_pseudo_label x ! i)) rest"
    and 3: "length pw' = length pw"
    and 4: "\<forall>k < length pw. pw' ! k = (if k \<in> set rest
                                      then one_mix (mix_masks x ! k) (gt_pixel_weight x ! k) (pw[i := ?t2] ! k)
                                      else pw[i := ?t2] ! k)"
    by simp_all
  have "pw' ! k = (if k \<in> set (i # rest)
                   then one_mix (mix_masks x ! k) (gt_pixel_weight x ! k) (pw ! k) else pw ! k)"
    if "k < length pw" for k
    using 4 that ni i by (cases "k = i") auto
  with 1 2 3 show ?case by simp
qed

lemma mix_loop_shapes:
  assumes "mix_loop aug x idx (mi, ml, pw) = Inr (mi', ml', pw')" and "distinct idx"
    and "i \<in> set idx"
  shows "i < length pw \<and> i < length (mix_masks x) \<and> i < length (mix_pseudo_label x) \<and>
         i < length (gt_semantic_seg x) \<and> gt_semantic_seg x ! i \<noteq> [] \<and>
         i < length (target_img x) \<and> i < length (gt_pixel_weight x) \<and>
         shape3 (img x ! i) = shape3 (target_img x ! i) \<and>
         map length (gt_semantic_seg x ! i ! 0) = map length (mix_pseudo_label x ! i) \<and>
         map length (gt_pixel_weight x ! i) = map length (pw ! i)"
  using assms
proof (induction idx arbitrary: mi ml pw)
  case Nil
  then show ?case by simp
next
  case (Cons j rest)
  let ?t2 = "one_mix (mix_masks x ! j) (gt_pixel_weight x ! j) (pw ! j)"
  from Cons.prems(1) have j: "j < length pw \<and> j < length (mix_masks x) \<and> j < length (mix_pseudo_label x) \<and>
         j < length (gt_semantic_seg x) \<and> gt_semantic_seg x ! j \<noteq> [] \<and>
         j < length (target_img x) \<and> j < length (gt_pixel_weight x) \<and>
         shape3 (img x ! j) = shape3 (target_img x ! j) \<and>
         map length (gt_semantic_seg x ! j ! 0) = map length (mix_pseudo_label x ! j) \<and>
         map length (gt_pixel_weight x ! j) = map length (pw ! j)"
    by (auto split: if_splits)
  from Cons.prems(1) obtain mi1 ml1 where
    step: "mix_loop aug x rest (mi1, ml1, pw[j := ?t2]) = Inr (mi', ml', pw')"
    by (auto simp: strong_transform_def Let_def split: if_splits)
  show ?case
  proof (cases "i = j")
    case True
    with j show ?thesis by simp
  next
    case False
    with Cons.prems have "i \<in> set rest" "distinct rest" by auto
    from Cons.IH [OF step this(2) this(1)] False show ?thesis by simp
  qed
qed

lemma apply_mixing_4x4:
  "apply_mixing (\<lambda>x. x) src_img_4x4 src_gt_4x4 tgt_img_4x4 masks_4x4
     (pseudo_label (pseudo_4x4 1 0)) (pseudo_weight (pseudo_4x4 1 0)) = Inr mixed_4x4"
  by code_simp

lemma map_length_eqD:
  "map length a = map length b \<Longrightarrow> length a = length b \<and> (\<forall>h < length a. length (a ! h) = length (b ! h))"
  by (metis length_map nth_map)

lemma shape3_eqD:
  "shape3 a = shape3 b \<Longrightarrow>
   length a = length b \<and> (\<forall>c < length a. map length (a ! c) = map length (b ! c))"
  unfolding shape3_def by (metis length_map nth_map)

lemma generate_pseudo_shape:
  assumes "generate_pseudo thr itop ibot sm = Inr p"
  shows "shape3 (pseudo_weight p) = shape3 (pseudo_label p)"
proof -
  from generate_pseudo_Inr [OF assms]
  have md: "max_dim1 sm = Inr (pseudo_prob p, pseudo_label p)"
    and pw: "pseudo_weight p =
           (let pw0 = map (map (map (\<lambda>x. pseudo_weight_scalar p))) (pseudo_prob p);
                pw1 = (if 0 < itop then zero_top (nat itop) pw0 else pw0)
            in if 0 < ibot then zero_bottom (nat ibot) pw1 else pw1)"
    by simp_all
  show ?thesis
    using max_dim1_shape [OF md]
    by (simp add: pw Let_def shape3_zero_bottom shape3_zero_top shape3_map3)
qed

section \<open>Properties of the training step\<close>

lemma forward_train_Inr:
  assumes "forward_train ext self im gt timg = (Inr lv, self')"
  shows "\<exists>ps mixed_img mixed_lbl pw pl_cl feat lbls est.
           generate_pseudo (pseudo_threshold self) (psweight_ignore_top self)
             (psweight_ignore_bottom self) (teacher_softmax ext timg) = Inr ps \<and>
           apply_mixing (augmentation ext) im gt timg (get_class_masks ext gt)
             (pseudo_label ps) (pseudo_weight ps) = Inr (mixed_img, mixed_lbl, pw) \<and>
           view_2_1_512_512 (pseudo_label ps) = Inr pl_cl \<and>
           contrast_preparations ext pl_cl = (feat, lbls) \<and>
           update_proto (feat_distributions self) feat lbls = (None, est) \<and>
           MemoryBank est \<noteq> NoAttribute \<and> debug_img_interval self \<noteq> 0 \<and>
           lv = dict_update (source_log_vars ext self im gt)
                  (snd (parse_losses ext
                     (add_prefix ext (student_mix_losses ext mixed_img mixed_lbl pw) ''mix''))) \<and>
           self' = self\<lparr>local_iter := local_iter self + 1, feat_distributions := est,
                        backward_calls := backward_calls self @ source_calls ext self im gt @
                          [(MixSeg, add_prefix ext (student_mix_losses ext mixed_img mixed_lbl pw) ''mix'')] @
                          (if start_distribution_iter self \<le> local_iter self
                           then [(Contrastive, [(''contrastive loss'',
                                    bank_contrastive ext pl_cl (MemoryBank est))])]
                           else []) @
                          [(Distill, [(''KL_div_loss_trg'', pseudo_weight_scalar ps * kl_div ext)])]\<rparr>"
  using assms
  unfolding forward_train_def Let_def source_log_vars_def source_calls_def backward_def
  by (auto split: sum.splits prod.splits option.splits if_splits)

lemma map_plane: "map (map f) (plane h w v) = plane h w (f v)"
  by (simp add: plane_def)

lemma map_length_plane: "map length (plane h w v) = replicate h w"
  by (simp add: plane_def)

lemma numel3_planes: "numel3 [plane h w v] = h * w" "numel3 [plane h w v, plane h w v] = 2 * (h * w)"
  by (simp_all add: numel3_def plane_def sum_list_replicate)

lemma max_dim1_planes2:
  "max_dim1 [[plane h w v], [plane h w v]] = Inr ([plane h w v, plane h w v], [plane h w 0, plane h w 0])"
  by (simp add: max_dim1_def max_image_def plane_def)

lemma max_dim1_planes1:
  "max_dim1 [[plane h w v]] = Inr ([plane h w v], [plane h w 0])"
  by (simp add: max_dim1_def max_image_def plane_def)

lemma count_ge_planes:
  "count_ge thr [plane h w v] = (if thr \<le> v then h * w else 0)"
  "count_ge thr [plane h w v, plane h w v] = (if thr \<le> v then 2 * (h * w) else 0)"
  by (simp_all add: count_ge_def plane_def sum_list_replicate)

lemma generate_pseudo_planes2:
  "0 < h * w \<Longrightarrow>
   generate_pseudo thr 0 0 [[plane h w v], [plane h w v]]
     = Inr \<lparr>pseudo_prob = [plane h w v, plane h w v], pseudo_label = [plane h w 0, plane h w 0],
            pseudo_weight_scalar = (if thr \<le> v then 1 else 0),
            pseudo_weight = [plane h w (if thr \<le> v then 1 else 0), plane h w (if thr \<le> v then 1 else 0)]\<rparr>"
  by (simp add: generate_pseudo_def max_dim1_planes2 numel3_planes count_ge_planes Let_def)
     (simp add: plane_def)

lemma one_mix_planes: "one_mix (plane h w m) (plane h w s) (plane h w t) = plane h w (if m = 1 then s else t)"
  by (simp add: one_mix_def plane_def)

lemma apply_mixing_planes2:
  "apply_mixing (\<lambda>x. x) [[plane h w a], [plane h w a]] [[plane h w 0], [plane h w 0]]
      [[plane h w a], [plane h w a]] [plane h w 0, plane h w 0] [plane h w 0, plane h w 0]
      [plane h w u, plane h w u]
     = Inr ([[plane h w a], [plane h w a]], [plane h w 0, plane h w 0], [plane h w u, plane h w u])"
  by (simp add: apply_mixing_def Let_def upt_rec strong_transform_def one_mix_planes shape3_def
        map_plane map_length_plane)

lemma forward_train_success:
  assumes "generate_pseudo (pseudo_threshold self) (psweight_ignore_top self)
             (psweight_ignore_bottom self) (teacher_softmax ext timg) = Inr ps"
    and "apply_mixing (augmentation ext) im gt timg (get_class_masks ext gt)
             (pseudo_label ps) (pseudo_weight ps) = Inr (mixed_img, mixed_lbl, pw)"
    and "view_2_1_512_512 (pseudo_label ps) = Inr pl_cl"
    and "contrast_preparations ext pl_cl = (feat, lbls)"
    and "update_proto (feat_distributions self) feat lbls = (None, est)"
    and "MemoryBank est \<noteq> NoAttribute" and "debug_img_interval self \<noteq> 0"
  shows "forward_train ext self im gt timg =
           (Inr (dict_update (source_log_vars ext self im gt)
                  (snd (parse_losses ext
                     (add_prefix ext (student_mix_losses ext mixed_img mixed_lbl pw) ''mix'')))),
            self\<lparr>local_iter := local_iter self + 1, feat_distributions := est,
                        backward_calls := backward_calls self @ source_calls ext self im gt @
                          [(MixSeg, add_prefix ext (student_mix_losses ext mixed_img mixed_lbl pw) ''mix'')] @
                          (if start_distribution_iter self \<le> local_iter self
                           then [(Contrastive, [(''contrastive loss'',
                                    bank_contrastive ext pl_cl (MemoryBank est))])]
                           else []) @
                          [(Distill, [(''KL_div_loss_trg'', pseudo_weight_scalar ps * kl_div ext)])]\<rparr>)"
  using assms
  unfolding forward_train_def Let_def source_log_vars_def source_calls_def backward_def
  by simp

lemma update_proto_empty:
  assumes "MemoryBank self = DequeList qs" and "length qs = class_num self"
  shows "update_proto self [] [] = (None, self)"
proof -
  have "self\<lparr>MemoryBank := DequeList (map (\<lambda>c. qs ! c) [0..<class_num self])\<rparr> = self"
    using assms by (simp add: map_nth [of qs, unfolded assms(2)])
  then show ?thesis using update_proto_DequeList [OF assms, of "[]" "[]"] by simp
qed

lemma dacs0_fields:
  "pseudo_threshold (dacs0 thr n) = thr" "psweight_ignore_top (dacs0 thr n) = 0"
  "psweight_ignore_bottom (dacs0 thr n) = 0" "enable_fdist (dacs0 thr n) = False"
  "debug_img_interval (dacs0 thr n) = 1000" "local_iter (dacs0 thr n) = n"
  "start_distribution_iter (dacs0 thr n) = 50" "backward_calls (dacs0 thr n) = []"
  "feat_distributions (dacs0 thr n) = projr (ProtoEstimator_init 512 19 200 None)"
  by (simp_all add: dacs0_def DACS_init_def cfg0_def ProtoEstimator_init_def)

lemma est0_bank:
  "MemoryBank (projr (ProtoEstimator_init 512 19 200 None))
     = DequeList (map (\<lambda>cls. deque_new [zeros2 19 512 ! cls] 200) [0..<19])"
  "class_num (projr (ProtoEstimator_init 512 19 200 None)) = 19"
  by (simp_all add: ProtoEstimator_init_def)

lemma est0_update:
  "update_proto (projr (ProtoEstimator_init 512 19 200 None)) [] []
     = (None, projr (ProtoEstimator_init 512 19 200 None))"
  by (rule update_proto_empty [OF est0_bank(1)]) (simp add: est0_bank(2))

lemma ext0_fields:
  "teacher_softmax ext0 t = t" "get_class_masks ext0 g = map hd g" "augmentation ext0 = (\<lambda>x. x)"
  "contrast_preparations ext0 l = ([], [])" "bank_contrastive ext0 l bk = 3" "kl_div ext0 = 5"
  "student_mix_losses ext0 a b c = [(''decode.loss_seg'', 1)]"
  "student_source_losses ext0 a g = [(''decode.loss_seg'', 2)]"
  "add_prefix ext0 d p = map (\<lambda>(k, v). (p @ ''.'' @ k, v)) d"
  "parse_losses ext0 d = (sum_list (map snd d), d @ [(''loss'', sum_list (map snd d))])"
  by (simp_all add: ext0_def)

lemma view_ok:
  "numel3 t = 2 * 1 * 512 * 512 \<Longrightarrow> view_2_1_512_512 t = Inr (projr (view_2_1_512_512 t))"
  by (simp add: view_2_1_512_512_def)

lemma step0:
  "forward_train ext0 (dacs0 thr n) tb2 gt2 tb2 =
     (Inr lv0,
      (dacs0 thr n)\<lparr>local_iter := n + 1,
         feat_distributions := projr (ProtoEstimator_init 512 19 200 None),
         backward_calls :=
           [(SourceSeg, [(''decode.loss_seg'', 2)]), (MixSeg, [(''mix.decode.loss_seg'', 1)])] @
           (if 50 \<le> n then [(Contrastive, [(''contrastive loss'', 3)])] else []) @
           [(Distill, [(''KL_div_loss_trg'', (if thr \<le> 1 then 1 else 0) * 5)])]\<rparr>)"
proof -
  let ?u = "if thr \<le> 1 then 1 else (0::real)"
  let ?ps = "\<lparr>pseudo_prob = [plane 512 512 1, plane 512 512 1],
              pseudo_label = [plane 512 512 0, plane 512 512 0],
              pseudo_weight_scalar = ?u,
              pseudo_weight = [plane 512 512 ?u, plane 512 512 ?u]\<rparr>"
  have gen: "generate_pseudo (pseudo_threshold (dacs0 thr n)) (psweight_ignore_top (dacs0 thr n))
             (psweight_ignore_bottom (dacs0 thr n)) (teacher_softmax ext0 tb2) = Inr ?ps"
    unfolding dacs0_fields ext0_fields tb2_def by (rule generate_pseudo_planes2) simp
  have mixing: "apply_mixing (augmentation ext0) tb2 gt2 tb2 (get_class_masks ext0 gt2)
             (pseudo_label ?ps) (pseudo_weight ?ps)
          = Inr ([[plane 512 512 1], [plane 512 512 1]], [plane 512 512 0, plane 512 512 0],
                 [plane 512 512 ?u, plane 512 512 ?u])"
    unfolding ext0_fields tb2_def gt2_def using apply_mixing_planes2 [of 512 512 1 ?u] by simp
  have view: "view_2_1_512_512 (pseudo_label ?ps) = Inr (projr (view_2_1_512_512 (pseudo_label ?ps)))"
    by (rule view_ok) (simp add: numel3_planes)
  have up: "update_proto (feat_distributions (dacs0 thr n)) [] []
              = (None, projr (ProtoEstimator_init 512 19 200 None))"
    unfolding dacs0_fields by (rule est0_update)
  have bank: "MemoryBank (projr (ProtoEstimator_init 512 19 200 None)) \<noteq> NoAttribute"
    by (simp add: est0_bank)
  have dbg: "debug_img_interval (dacs0 thr n) \<noteq> 0" by (simp add: dacs0_fields)
  show ?thesis
    apply (subst forward_train_success [OF gen mixing view ext0_fields(4) up bank dbg])
    apply (simp add: source_log_vars_def dacs0_fields ext0_fields dict_update_def lv0_def
        source_calls_def)
    done
qed

lemma generate_pseudo_planes1:
  "0 < h * w \<Longrightarrow>
   generate_pseudo thr 0 0 [[plane h w v]]
     = Inr \<lparr>pseudo_prob = [plane h w v], pseudo_label = [plane h w 0],
            pseudo_weight_scalar = (if thr \<le> v then 1 else 0),
            pseudo_weight = [plane h w (if thr \<le> v then 1 else 0)]\<rparr>"
  by (simp add: generate_pseudo_def max_dim1_planes1 numel3_planes count_ge_planes Let_def)
     (simp add: plane_def)

lemma apply_mixing_planes1:
  "apply_mixing (\<lambda>x. x) [[plane h w a]] [[plane h w 0]] [[plane h w a]] [plane h w 0]
      [plane h w 0] [plane h w u]
     = Inr ([[plane h w a]], [plane h w 0], [plane h w u])"
  by (simp add: apply_mixing_def Let_def upt_rec strong_transform_def one_mix_planes shape3_def
        map_plane map_length_plane)

lemma step1:
  "forward_train ext0 (dacs0 thr n) tb1 gt1 tb1 =
     (Inr lv0,
      (dacs0 thr n)\<lparr>local_iter := n + 1,
         feat_distributions := projr (ProtoEstimator_init 512 19 200 None),
         backward_calls :=
           [(SourceSeg, [(''decode.loss_seg'', 2)]), (MixSeg, [(''mix.decode.loss_seg'', 1)])] @
           (if 50 \<le> n then [(Contrastive, [(''contrastive loss'', 3)])] else []) @
           [(Distill, [(''KL_div_loss_trg'', (if thr \<le> 1 then 1 else 0) * 5)])]\<rparr>)"
proof -
  let ?u = "if thr \<le> 1 then 1 else (0::real)"
  let ?ps = "\<lparr>pseudo_prob = [plane 1024 512 1], pseudo_label = [plane 1024 512 0],
              pseudo_weight_scalar = ?u, pseudo_weight = [plane 1024 512 ?u]\<rparr>"
  have gen: "generate_pseudo (pseudo_threshold (dacs0 thr n)) (psweight_ignore_top (dacs0 thr n))
             (psweight_ignore_bottom (dacs0 thr n)) (teacher_softmax ext0 tb1) = Inr ?ps"
    unfolding dacs0_fields ext0_fields tb1_def by (rule generate_pseudo_planes1) simp
  have mixing: "apply_mixing (augmentation ext0) tb1 gt1 tb1 (get_class_masks ext0 gt1)
             (pseudo_label ?ps) (pseudo_weight ?ps)
          = Inr ([[plane 1024 512 1]], [plane 1024 512 0], [plane 1024 512 ?u])"
    unfolding ext0_fields tb1_def gt1_def using apply_mixing_planes1 [of 1024 512 1 ?u] by simp
  have view: "view_2_1_512_512 (pseudo_label ?ps) = Inr (projr (view_2_1_512_512 (pseudo_label ?ps)))"
    by (rule view_ok) (simp add: numel3_planes)
  have up: "update_proto (feat_distributions (dacs0 thr n)) [] []
              = (None, projr (ProtoEstimator_init 512 19 200 None))"
    unfolding dacs0_fields by (rule est0_update)
  have bank: "MemoryBank (projr (ProtoEstimator_init 512 19 200 None)) \<noteq> NoAttribute"
    by (simp add: est0_bank)
  have dbg: "debug_img_interval (dacs0 thr n) \<noteq> 0" by (simp add: dacs0_fields)
  show ?thesis
    apply (subst forward_train_success [OF gen mixing view ext0_fields(4) up bank dbg])
    apply (simp add: source_log_vars_def dacs0_fields ext0_fields dict_update_def lv0_def
        source_calls_def)
    done
qed

lemma step_small:
  "forward_train ext0 (dacs0 thr n) [[plane 4 4 1]] [[plane 4 4 0]] [[plane 4 4 1]] =
     (Inl RuntimeError,
      (dacs0 thr n)\<lparr>backward_calls :=
           [(SourceSeg, [(''decode.loss_seg'', 2)]), (MixSeg, [(''mix.decode.loss_seg'', 1)])]\<rparr>)"
proof -
  have gen: "generate_pseudo thr 0 0 [[plane 4 4 1]]
     = Inr \<lparr>pseudo_prob = [plane 4 4 1], pseudo_label = [plane 4 4 0],
            pseudo_weight_scalar = (if thr \<le> 1 then 1 else 0),
            pseudo_weight = [plane 4 4 (if thr \<le> 1 then 1 else 0)]\<rparr>"
    by (rule generate_pseudo_planes1) simp
  show ?thesis
    unfolding forward_train_def Let_def dacs0_fields ext0_fields backward_def
    by (simp add: gen apply_mixing_planes1 [of 4 4 1] view_2_1_512_512_def numel3_planes dacs0_fields)
qed

section \<open>Batches without a confident pixel\<close>










section \<open>The stochastic layers of the teacher\<close>

text \<open>
  After the loop no dropout and no drop-path module is in training mode, and the other
  modules are as they were. Whether the forward pass of the teacher is then the same on
  every run lies with the network, which is not part of this development.
\<close>

lemma disable_stochastic_layers_length:
  "length (disable_stochastic_layers modules) = length modules"
  by (simp add: disable_stochastic_layers_def)

lemma disable_stochastic_layers_nth:
  "k < length modules \<Longrightarrow>
   disable_stochastic_layers modules ! k
     = (if module_class (modules ! k) = OtherModule then modules ! k
        else (modules ! k)\<lparr>training := False\<rparr>)"
  by (cases "module_class (modules ! k)") (simp_all add: disable_stochastic_layers_def Let_def)

lemma stochastic_layers_disabled:
  "m \<in> set (disable_stochastic_layers modules) \<Longrightarrow> module_class m \<noteq> OtherModule \<Longrightarrow>
   \<not> training m"
proof -
  assume "m \<in> set (disable_stochastic_layers modules)" and c: "module_class m \<noteq> OtherModule"
  then obtain m0 where "m0 \<in> set modules"
    and m: "m = (let m1 = (if module_class m0 = DropoutNd then m0\<lparr>training := False\<rparr> else m0)
                 in if module_class m1 = DropPath then m1\<lparr>training := False\<rparr> else m1)"
    by (auto simp: disable_stochastic_layers_def)
  show ?thesis using c unfolding m by (cases "module_class m0") (simp_all add: Let_def)
qed


section \<open>Claims on the memory bank\<close>

lemma scenario_run:
  "update_protos (projr (ProtoEstimator_init 1 3 3 None)) scenario
     = (None, \<lparr>dim = 1, class_num = 3, CoVariance = [[0], [0], [0]], Ave = [[0], [0], [0]],
               Amount = [0, 0, 0],
               MemoryBank = DequeList [\<lparr>maxlen = 3, items = [[0]]\<rparr>, \<lparr>maxlen = 3, items = [[0]]\<rparr>,
                                       \<lparr>maxlen = 3, items = [[2], [3], [4]]\<rparr>]\<rparr>)"
  by code_simp

lemma init_1_3_3:
  "ProtoEstimator_init 1 3 3 None = Inr (projr (ProtoEstimator_init 1 3 3 None))"
  by (simp add: ProtoEstimator_init_def)

lemma rect_scenario: "\<forall>(f, l) \<in> set scenario. rect f"
  by (simp add: scenario_def rect_def ncols_def)

text \<open>
  C1. Start from a bank built by the constructor without a checkpoint and apply any
  sequence of updates. Whatever the outcome of the session, the queue of every class
  holds at most \<open>memory_length\<close> entries; and when every update returned, the queue
  of a class is exactly the last \<open>memory_length\<close> entries of what the class received
  (the zero vector of the constructor first, then its class means, in insertion order):
  the oldest entries are the ones evicted. With \<open>memory_length = 3\<close> and four means
  \<open>v1, v2, v3, v4\<close> for one class this is \<open>[v2, v3, v4]\<close>.
\<close>

theorem queue_bounded_fifo:
  assumes "ProtoEstimator_init d c memory_length None = Inr self0"
    and "update_protos self0 batches = (r, self)"
    and "\<forall>(f, l) \<in> set batches. rect f"
    and "cls < c"
  shows "(\<exists>q. read_queue self cls = Inr q \<and> int (length q) \<le> memory_length) \<and>
         (r = None \<longrightarrow>
            read_queue self cls = Inr (lastn (nat memory_length) (history d batches cls)))"
proof -
  have m: "0 \<le> memory_length"
    using assms(1,4) by (auto simp: ProtoEstimator_init_def split: if_splits)
  have "bounded c (nat memory_length) self"
    using bounded_update_protos [OF bounded_init [OF assms(1)] assms(2)] .
  then have 1: "\<exists>q. read_queue self cls = Inr q \<and> int (length q) \<le> memory_length"
    using assms(4) m by (auto simp: bounded_def read_queue_def)
  have 2: "read_queue self cls = Inr (lastn (nat memory_length) (history d batches cls))"
    if "r = None"
  proof -
    have "tracks c (nat memory_length)
            (\<lambda>k. [replicate d 0] @ map (\<lambda>(f, l). class_mean f l k) (filter (\<lambda>(f, l). k \<in> set l) batches)) self"
      using tracks_update_protos [OF tracks_init [OF assms(1)] _ assms(3)] assms(2) that by simp
    then show ?thesis using assms(4) by (auto simp: tracks_def read_queue_def history_def)
  qed
  from 1 2 show ?thesis by blast
qed

theorem queue_bounded_fifo_witness:
  "ProtoEstimator_init 1 3 3 None = Inr (projr (ProtoEstimator_init 1 3 3 None)) \<and>
   fst (update_protos (projr (ProtoEstimator_init 1 3 3 None)) scenario) = None \<and>
   history 1 scenario 2 = [[0], [1], [2], [3], [4]] \<and>
   read_queue (snd (update_protos (projr (ProtoEstimator_init 1 3 3 None)) scenario)) 2
     = Inr [[2], [3], [4]]"
proof -
  have run: "update_protos (projr (ProtoEstimator_init 1 3 3 None)) scenario
               = (None, snd (update_protos (projr (ProtoEstimator_init 1 3 3 None)) scenario))"
    unfolding scenario_run by simp
  have two: "(2::nat) < 3" by simp
  have hist: "history 1 scenario 2 = [[0], [1], [2], [3], [4]]"
    by (simp add: history_def scenario_def class_mean_def class_rows_def ncols_def)
  have ok: "fst (update_protos (projr (ProtoEstimator_init 1 3 3 None)) scenario) = None"
    unfolding scenario_run by simp
  have "read_queue (snd (update_protos (projr (ProtoEstimator_init 1 3 3 None)) scenario)) 2
          = Inr (lastn (nat 3) (history 1 scenario 2))"
    using queue_bounded_fifo [OF init_1_3_3 run rect_scenario two] by simp
  then have "read_queue (snd (update_protos (projr (ProtoEstimator_init 1 3 3 None)) scenario)) 2
          = Inr [[2], [3], [4]]"
    unfolding hist by (simp add: lastn_def)
  with init_1_3_3 ok hist show ?thesis by blast
qed

text \<open>
  C6. A call \<open>update_proto(features, labels)\<close> on a bank of one deque per class, with
  a rectangular feature tensor: when the labels fit the features and the classes, the
  call returns, every class that occurs among the labels has had the mean feature
  vector of its pixels appended to its deque (by \<open>deque.append\<close>), and the deque of
  every other class is the one it was; otherwise \<open>scatter_\<close> raises and nothing has
  changed.
\<close>

theorem update_proto_appends_class_means:
  assumes "MemoryBank self = DequeList qs" and "length qs = class_num self"
    and "rect features"
  shows "update_proto self features labels =
           (if length labels \<le> length features \<and> (\<forall>l \<in> set labels. l < class_num self)
            then (None, self\<lparr>MemoryBank := DequeList
                    (map (\<lambda>c. if c \<in> set labels
                               then deque_append (qs ! c) (class_mean features labels c)
                               else qs ! c) [0..<class_num self])\<rparr>)
            else (Some RuntimeError, self))"
proof (cases "length labels \<le> length features \<and> (\<forall>l \<in> set labels. l < class_num self)")
  case False
  then show ?thesis using update_proto_fails [OF False] by simp
next
  case True
  then have vl: "length labels \<le> length features" and vc: "\<forall>l \<in> set labels. l < class_num self"
    by auto
  have "map (\<lambda>c. if c \<in> set labels
                  then deque_append (qs ! c)
                         (ave_CxA (class_num self) features
                            (onehot_of (length features - length labels) (class_num self) labels) ! c)
                  else qs ! c) [0..<class_num self]
      = map (\<lambda>c. if c \<in> set labels
                  then deque_append (qs ! c) (class_mean features labels c)
                  else qs ! c) [0..<class_num self]"
    using vl assms(3) by (auto simp: ave_CxA_class_mean)
  then show ?thesis
    using update_proto_DequeList [OF assms(1,2) vl vc] True by simp
qed

theorem update_proto_appends_class_means_witness:
  "update_proto (projr (ProtoEstimator_init 2 3 2 None)) [[1, 2], [3, 4], [5, 8]] [2, 0, 2]
     = (None, (projr (ProtoEstimator_init 2 3 2 None))
          \<lparr>MemoryBank := DequeList [\<lparr>maxlen = 2, items = [[0, 0], [3, 4]]\<rparr>,
                                    \<lparr>maxlen = 2, items = [[0, 0]]\<rparr>,
                                    \<lparr>maxlen = 2, items = [[0, 0], [3, 5]]\<rparr>]\<rparr>)"
proof -
  let ?self = "projr (ProtoEstimator_init 2 3 2 None)"
  let ?qs = "[\<lparr>maxlen = 2, items = [[0, 0]]\<rparr>, \<lparr>maxlen = 2, items = [[0, 0]]\<rparr>,
              \<lparr>maxlen = 2, items = [[0, 0 :: real]]\<rparr>]"
  have bank: "MemoryBank ?self = DequeList ?qs"
    by (simp add: ProtoEstimator_init_def deque_new_single lastn_def zeros2_def upt_rec numeral_2_eq_2)
  have len: "length ?qs = class_num ?self" by (simp add: ProtoEstimator_init_def)
  have r: "rect [[1, 2], [3, 4], [5, 8]]" by (simp add: rect_def ncols_def)
  have cn: "class_num ?self = 3" by (simp add: ProtoEstimator_init_def)
  show ?thesis
    using update_proto_appends_class_means [OF bank len r, of "[2, 0, 2]"]
    by (simp add: cn class_mean_def class_rows_def ncols_def deque_append_def upt_rec)
qed

text \<open>
  C7, as the code has it. For a bank built by the constructor without a checkpoint
  and with \<open>memory_length\<close> at least 1, at every point of a session (after any
  sequence of updates, whether the last one returned or raised) reading the queue of a
  class \<open>0..C-1\<close> succeeds and the queue is not empty.
\<close>

theorem queue_never_empty:
  assumes "ProtoEstimator_init d c memory_length None = Inr self0"
    and "1 \<le> memory_length"
    and "update_protos self0 batches = (r, self)"
    and "cls < c"
  shows "\<exists>q. read_queue self cls = Inr q \<and> q \<noteq> []"
proof -
  have "bounded c (nat memory_length) self"
    using bounded_update_protos [OF bounded_init [OF assms(1)] assms(3)] .
  then show ?thesis using assms(2,4) by (auto simp: bounded_def read_queue_def)
qed

theorem queue_never_empty_witness:
  "ProtoEstimator_init 1 3 3 None = Inr (projr (ProtoEstimator_init 1 3 3 None)) \<and>
   (1::int) \<le> 3 \<and>
   (\<exists>q. read_queue (snd (update_protos (projr (ProtoEstimator_init 1 3 3 None)) scenario)) 0
           = Inr q \<and> q \<noteq> [])"
proof -
  have run: "update_protos (projr (ProtoEstimator_init 1 3 3 None)) scenario
               = (None, snd (update_protos (projr (ProtoEstimator_init 1 3 3 None)) scenario))"
    unfolding scenario_run by simp
  have one: "(1::int) \<le> 3" and zero: "(0::nat) < 3" by simp_all
  from queue_never_empty [OF init_1_3_3 one run zero] init_1_3_3 show ?thesis by simp
qed

text \<open>
  The claim C7 as the specification states it fails twice. With \<open>memory_length = 0\<close>
  the constructor's deque drops its seed at once, so the queue is empty; and a bank
  resumed from a checkpoint that has no key \<open>'MemoryBank'\<close> has no attribute
  \<open>MemoryBank\<close> at all, so that a read raises.
\<close>

theorem queue_never_empty_counterexample:
  "read_queue (projr (ProtoEstimator_init 1 1 0 None)) 0 = Inr [] \<and>
   read_queue (projr (ProtoEstimator_init 1 1 5
      (Some \<lparr>ck_CoVariance = [[0]], ck_Ave = [[0]], ck_Amount = [0], ck_MemoryBank = None\<rparr>))) 0
     = Inl AttributeError"
  by (simp add: ProtoEstimator_init_def read_queue_def deque_new_def deque_append_def zeros2_def)

section \<open>Claims on pseudo-label generation\<close>



text \<open>
  C5. With \<open>psweight_ignore_top > 0\<close> and \<open>psweight_ignore_bottom > 0\<close>, the weight
  map of pseudo-label generation has the shape of the label map, its entries in the
  first \<open>ignore_top\<close> rows and in the last \<open>ignore_bottom\<close> rows of every image are
  0 whatever the confidences, and every other entry is the trust-weight scalar.
\<close>

theorem border_rows_zero:
  assumes "generate_pseudo thr itop ibot ema_softmax = Inr p" and "0 < itop" and "0 < ibot"
    and "b < length (pseudo_weight p)" and "h < length (pseudo_weight p ! b)"
    and "w < length (pseudo_weight p ! b ! h)"
  shows "shape3 (pseudo_weight p) = shape3 (pseudo_label p) \<and>
         pseudo_weight p ! b ! h ! w
           = (if h < nat itop \<or> length (pseudo_weight p ! b) - nat ibot \<le> h then 0
              else pseudo_weight_scalar p)"
proof -
  let ?pw0 = "map (map (map (\<lambda>x. pseudo_weight_scalar p))) (pseudo_prob p)"
  from generate_pseudo_Inr [OF assms(1)] assms(2,3)
  have md: "max_dim1 ema_softmax = Inr (pseudo_prob p, pseudo_label p)"
    and pw: "pseudo_weight p = zero_bottom (nat ibot) (zero_top (nat itop) ?pw0)"
    by (simp_all add: Let_def)
  have sh: "shape3 (pseudo_weight p) = shape3 (pseudo_label p)"
    using max_dim1_shape [OF md] by (simp add: pw shape3_zero_bottom shape3_zero_top shape3_map3)
  have shp: "shape3 (pseudo_weight p) = shape3 ?pw0"
    by (simp add: pw shape3_zero_bottom shape3_zero_top)
  have b: "b < length ?pw0" using assms(4) by (simp add: pw zero_bottom_def zero_top_def)
  have hb: "length (pseudo_weight p ! b) = length (?pw0 ! b)"
    using b by (simp add: pw zero_bottom_def zero_top_def)
  then have h: "h < length (?pw0 ! b)" using assms(5) by simp
  have w: "w < length (?pw0 ! b ! h)"
    using assms(6) b h by (simp add: pw zero_bottom_nth zero_top_nth length_zero_top length_zero_top_nth split: if_splits)
  have "pseudo_weight p ! b ! h ! w
          = (if h < nat itop \<or> length (?pw0 ! b) - nat ibot \<le> h then 0 else ?pw0 ! b ! h ! w)"
    using b h w by (simp add: pw zero_bottom_nth zero_top_nth length_zero_top length_zero_top_nth)
  also have "?pw0 ! b ! h ! w = pseudo_weight_scalar p" using b h w by simp
  finally show ?thesis using sh hb by simp
qed

theorem border_rows_zero_witness:
  "generate_pseudo (9/10) 1 1 softmax_4x4 = Inr (pseudo_4x4 1 1) \<and>
   shape3 (pseudo_weight (pseudo_4x4 1 1)) = shape3 (pseudo_label (pseudo_4x4 1 1)) \<and>
   pseudo_weight (pseudo_4x4 1 1) ! 0 ! 0 ! 2 = 0 \<and>
   pseudo_weight (pseudo_4x4 1 1) ! 0 ! 1 ! 2 = 1/4 \<and>
   pseudo_weight (pseudo_4x4 1 1) ! 0 ! 3 ! 2 = 0"
proof -
  have pos: "(0::int) < 1" by simp
  have b: "0 < length (pseudo_weight (pseudo_4x4 1 1))" by (simp add: pseudo_4x4_def)
  have h0: "0 < length (pseudo_weight (pseudo_4x4 1 1) ! 0)"
    and h1: "1 < length (pseudo_weight (pseudo_4x4 1 1) ! 0)"
    and h3: "3 < length (pseudo_weight (pseudo_4x4 1 1) ! 0)"
    by (simp_all add: pseudo_4x4_def)
  have w0: "2 < length (pseudo_weight (pseudo_4x4 1 1) ! 0 ! 0)"
    and w1: "2 < length (pseudo_weight (pseudo_4x4 1 1) ! 0 ! 1)"
    and w3: "2 < length (pseudo_weight (pseudo_4x4 1 1) ! 0 ! 3)"
    by (simp_all add: pseudo_4x4_def)
  have len: "length (pseudo_weight (pseudo_4x4 1 1) ! 0) = 4"
    and sc: "pseudo_weight_scalar (pseudo_4x4 1 1) = 1/4"
    by (simp_all add: pseudo_4x4_def)
  from border_rows_zero [OF generate_pseudo_4x4_11 pos pos b h0 w0]
       border_rows_zero [OF generate_pseudo_4x4_11 pos pos b h1 w1]
       border_rows_zero [OF generate_pseudo_4x4_11 pos pos b h3 w3]
       generate_pseudo_4x4_11
  show ?thesis unfolding len sc by simp
qed

section \<open>Claims on domain mixing\<close>

text \<open>
  C4. When the mixing of lines 299 to 316 returns, then for every sample \<open>i\<close> of the
  source batch and every pixel of its mix mask (a mask in the shape of the label map and
  of the image channels): the mixed label is the source ground truth where the mask is 1
  and the target pseudo-label elsewhere; the mixed weight is 1, the uniform ground-truth
  weight, where the mask is 1 and the target trust weight elsewhere; and the mixed image
  is the augmentation of the composite that takes, in every channel, the source pixel
  where the same mask is 1 and the target pixel elsewhere. The compositing itself is
  \<open>strong_transform\<close>, taken from the specification.
\<close>

theorem mixing_follows_mask:
  assumes gen: "generate_pseudo thr itop ibot sm = Inr ps"
    and mixing: "apply_mixing aug im gt timg masks (pseudo_label ps) (pseudo_weight ps)
                   = Inr (mixed_img, mixed_lbl, pw')"
    and i: "i < length im"
    and mshape: "map length (masks ! i) = map length (pseudo_label ps ! i)"
    and chans: "\<forall>ch \<in> set (im ! i). map length ch = map length (masks ! i)"
    and h: "h < length (masks ! i)" and w: "w < length (masks ! i ! h)"
  shows "mixed_lbl ! i ! h ! w
           = (if masks ! i ! h ! w = 1 then gt ! i ! 0 ! h ! w else pseudo_label ps ! i ! h ! w) \<and>
         pw' ! i ! h ! w
           = (if masks ! i ! h ! w = 1 then 1 else pseudo_weight ps ! i ! h ! w) \<and>
         (\<exists>comp. mixed_img ! i = aug comp \<and> length comp = length (im ! i) \<and>
            (\<forall>c < length (im ! i).
               comp ! c ! h ! w
                 = (if masks ! i ! h ! w = 1 then im ! i ! c ! h ! w else timg ! i ! c ! h ! w)))"
proof -
  define x where "x = \<lparr>img = im, gt_semantic_seg = gt, target_img = timg, mix_masks = masks,
               mix_pseudo_label = pseudo_label ps,
               gt_pixel_weight = map (map (map (\<lambda>v. 1::real))) (pseudo_weight ps)\<rparr>"
  let ?pl = "pseudo_label ps" and ?pw = "pseudo_weight ps" and ?mk = "masks ! i"
  from mixing have loop:
    "mix_loop aug x [0..<length im] ([], [], ?pw) = Inr (mixed_img, mixed_lbl, pw')"
    by (auto simp: apply_mixing_def Let_def x_def split: sum.splits if_splits)
  have mem: "i \<in> set [0..<length im]" using i by simp
  from mix_loop_Inr [OF loop] have
    mi: "mixed_img = map (mixed_image aug x) [0..<length im]"
    and ml: "mixed_lbl = map (\<lambda>i. one_mix (masks ! i) (gt ! i ! 0) (?pl ! i)) [0..<length im]"
    and pw: "\<forall>k < length ?pw. pw' ! k = (if k \<in> set [0..<length im]
               then one_mix (masks ! k) (gt_pixel_weight x ! k) (?pw ! k) else ?pw ! k)"
    by (simp_all add: x_def)
  from mix_loop_shapes [OF loop _ mem] have
    ipw: "i < length ?pw" and ipl: "i < length ?pl"
    and simg: "shape3 (im ! i) = shape3 (timg ! i)"
    and sgt: "map length (gt ! i ! 0) = map length (?pl ! i)"
    by (simp_all add: x_def)
  have spw: "map length (?pw ! i) = map length (?pl ! i)"
    using shape3_eqD [OF generate_pseudo_shape [OF gen]] ipw by simp
  note m = map_length_eqD [OF mshape]
  note g = map_length_eqD [OF sgt]
  note p = map_length_eqD [OF spw]
  have hp: "h < length (?pl ! i)" and wp: "w < length (?pl ! i ! h)"
    using m h w by auto
  have 1: "mixed_lbl ! i ! h ! w
           = (if ?mk ! h ! w = 1 then gt ! i ! 0 ! h ! w else ?pl ! i ! h ! w)"
    using i h w hp wp g by (simp add: ml one_mix_nth)
  have gpw: "gt_pixel_weight x ! i = map (map (\<lambda>v. 1)) (?pw ! i)"
    using ipw by (simp add: x_def)
  have 2: "pw' ! i ! h ! w = (if ?mk ! h ! w = 1 then 1 else ?pw ! i ! h ! w)"
    using pw ipw i h w hp wp p by (simp add: gpw one_mix_nth)
  let ?comp = "map (\<lambda>(sc, tc). one_mix ?mk sc tc) (zip (im ! i) (timg ! i))"
  note s = shape3_eqD [OF simg]
  have 3: "mixed_img ! i = aug ?comp" using i by (simp add: mi mixed_image_def x_def)
  have 4: "length ?comp = length (im ! i)" using s by simp
  have 5: "?comp ! c ! h ! w
            = (if ?mk ! h ! w = 1 then im ! i ! c ! h ! w else timg ! i ! c ! h ! w)"
    if c: "c < length (im ! i)" for c
  proof -
    have "im ! i ! c \<in> set (im ! i)" using c by simp
    with chans have sc: "map length (im ! i ! c) = map length ?mk" by blast
    have tc: "map length (timg ! i ! c) = map length (im ! i ! c)" using s c by simp
    note a = map_length_eqD [OF sc]
    note b = map_length_eqD [OF tc]
    have "h < length (im ! i ! c)" "w < length (im ! i ! c ! h)" using a h w by auto
    moreover have "h < length (timg ! i ! c)" "w < length (timg ! i ! c ! h)"
      using b a h w by auto
    ultimately show ?thesis using c s h w by (simp add: one_mix_nth)
  qed
  from 1 2 3 4 5 show ?thesis by blast
qed

theorem mixing_follows_mask_witness:
  "generate_pseudo (9/10) 1 0 softmax_4x4 = Inr (pseudo_4x4 1 0) \<and>
   apply_mixing (\<lambda>x. x) src_img_4x4 src_gt_4x4 tgt_img_4x4 masks_4x4
     (pseudo_label (pseudo_4x4 1 0)) (pseudo_weight (pseudo_4x4 1 0)) = Inr mixed_4x4 \<and>
   fst (snd mixed_4x4) ! 0 ! 1 ! 0 = 5 \<and> fst (snd mixed_4x4) ! 0 ! 1 ! 2 = 0 \<and>
   snd (snd mixed_4x4) ! 0 ! 1 ! 0 = 1 \<and> snd (snd mixed_4x4) ! 0 ! 1 ! 2 = 1/4"
proof -
  have mixing: "apply_mixing (\<lambda>x. x) src_img_4x4 src_gt_4x4 tgt_img_4x4 masks_4x4
     (pseudo_label (pseudo_4x4 1 0)) (pseudo_weight (pseudo_4x4 1 0))
       = Inr (fst mixed_4x4, fst (snd mixed_4x4), snd (snd mixed_4x4))"
    by (simp add: apply_mixing_4x4)
  have i: "0 < length src_img_4x4" by (simp add: src_img_4x4_def)
  have mshape: "map length (masks_4x4 ! 0) = map length (pseudo_label (pseudo_4x4 1 0) ! 0)"
    by (simp add: masks_4x4_def pseudo_4x4_def)
  have chans: "\<forall>ch \<in> set (src_img_4x4 ! 0). map length ch = map length (masks_4x4 ! 0)"
    by (simp add: masks_4x4_def src_img_4x4_def)
  have h: "1 < length (masks_4x4 ! 0)" by (simp add: masks_4x4_def)
  have w0: "0 < length (masks_4x4 ! 0 ! 1)" and w2: "2 < length (masks_4x4 ! 0 ! 1)"
    by (simp_all add: masks_4x4_def)
  have vals: "masks_4x4 ! 0 ! 1 ! 0 = 1" "masks_4x4 ! 0 ! 1 ! 2 = 0"
    "src_gt_4x4 ! 0 ! 0 ! 1 ! 0 = 5" "pseudo_label (pseudo_4x4 1 0) ! 0 ! 1 ! 2 = 0"
    "pseudo_weight (pseudo_4x4 1 0) ! 0 ! 1 ! 2 = 1/4"
    by (simp_all add: masks_4x4_def src_gt_4x4_def pseudo_4x4_def)
  from mixing_follows_mask [OF generate_pseudo_4x4_10 mixing i mshape chans h w0]
       mixing_follows_mask [OF generate_pseudo_4x4_10 mixing i mshape chans h w2]
       generate_pseudo_4x4_10 apply_mixing_4x4
  show ?thesis unfolding vals by simp
qed

section \<open>Claims on the training step\<close>

text \<open>
  C10, as the code has it. The step checks the number of elements of the pseudo-label
  map, not its shape: unless pseudo-label generation returns a map of exactly
  \<open>2 * 1 * 512 * 512\<close> elements, the step raises, the memory bank is the one it was
  and neither the contrastive nor the distillation loss has been back-propagated; so a
  step that returns had a map of that many elements.
\<close>

theorem step_needs_524288_labels:
  assumes "forward_train ext self im gt timg = (r, self')"
    and "\<not> (\<exists>ps. generate_pseudo (pseudo_threshold self) (psweight_ignore_top self)
                    (psweight_ignore_bottom self) (teacher_softmax ext timg) = Inr ps \<and>
                  numel3 (pseudo_label ps) = 2 * 1 * 512 * 512)"
  shows "(\<exists>e. r = Inl e) \<and> feat_distributions self' = feat_distributions self \<and>
         (\<exists>cs. backward_calls self' = backward_calls self @ cs \<and>
               Contrastive \<notin> fst ` set cs \<and> Distill \<notin> fst ` set cs)"
  using assms
  unfolding forward_train_def Let_def backward_def view_2_1_512_512_def
  by (auto split: sum.splits prod.splits if_splits)

theorem step_needs_524288_labels_witness:
  "forward_train ext0 (dacs0 (9/10) 0) [[plane 4 4 1]] [[plane 4 4 0]] [[plane 4 4 1]]
     = (Inl RuntimeError,
        (dacs0 (9/10) 0)\<lparr>backward_calls :=
           [(SourceSeg, [(''decode.loss_seg'', 2)]), (MixSeg, [(''mix.decode.loss_seg'', 1)])]\<rparr>) \<and>
   numel3 [plane 4 4 (0::nat)] = 16 \<and>
   feat_distributions (snd (forward_train ext0 (dacs0 (9/10) 0) [[plane 4 4 1]] [[plane 4 4 0]]
                              [[plane 4 4 1]]))
     = feat_distributions (dacs0 (9/10) 0)"
proof -
  let ?r = "forward_train ext0 (dacs0 (9/10) 0) [[plane 4 4 1]] [[plane 4 4 0]] [[plane 4 4 1]]"
  have run: "?r = (fst ?r, snd ?r)" by simp
  have gen: "generate_pseudo (9/10) 0 0 [[plane 4 4 1]]
     = Inr \<lparr>pseudo_prob = [plane 4 4 1], pseudo_label = [plane 4 4 0],
            pseudo_weight_scalar = (if (9/10::real) \<le> 1 then 1 else 0),
            pseudo_weight = [plane 4 4 (if (9/10::real) \<le> 1 then 1 else 0)]\<rparr>"
    by (rule generate_pseudo_planes1) simp
  have small: "\<not> (\<exists>ps. generate_pseudo (pseudo_threshold (dacs0 (9/10) 0))
                    (psweight_ignore_top (dacs0 (9/10) 0))
                    (psweight_ignore_bottom (dacs0 (9/10) 0))
                    (teacher_softmax ext0 [[plane 4 4 1]]) = Inr ps \<and>
                  numel3 (pseudo_label ps) = 2 * 1 * 512 * 512)"
    unfolding dacs0_fields ext0_fields gen by (auto simp: numel3_planes)
  from step_needs_524288_labels [OF run small]
  have "feat_distributions (snd ?r) = feat_distributions (dacs0 (9/10) 0)" by simp
  then show ?thesis using step_small [of "9/10" 0] by (simp add: numel3_planes)
qed

text \<open>
  The claim C10 as the specification states it asks for exactly two target images of
  512 by 512 pixels. One target image of 1024 by 512 pixels has as many elements, passes
  the reshape, and the step returns when the collaborators do.
\<close>

theorem step_needs_524288_labels_counterexample:
  "fst (forward_train ext0 (dacs0 (9/10) 0) tb1 gt1 tb1) = Inr lv0 \<and>
   length tb1 = 1 \<and> shape3 (tb1 ! 0) = [replicate 1024 512]"
  by (simp add: step1) (simp add: tb1_def shape3_def plane_def)

text \<open>
  C3, as the code has it. In every step that returns, the contrastive loss is computed
  and back-propagated if and only if \<open>local_iter\<close> has reached
  \<open>start_distribution_iter\<close>; before that no contrastive backward call is made at
  all. The returned \<open>log_vars\<close> never carry the term: they are the same dictionary
  for every value of the counter and every contrastive loss, because the step discards
  the log of that loss.
\<close>

theorem contrastive_gate:
  assumes "forward_train ext self im gt timg = (Inr lv, self')"
  shows "(\<exists>cs. backward_calls self' = backward_calls self @ cs \<and>
               (Contrastive \<in> fst ` set cs \<longleftrightarrow> start_distribution_iter self \<le> local_iter self)) \<and>
         (\<forall>f n r s. forward_train (ext\<lparr>bank_contrastive := f\<rparr>) (self\<lparr>local_iter := n\<rparr>) im gt timg
                       = (r, s) \<longrightarrow> r = Inr lv)"
proof -
  from forward_train_Inr [OF assms] obtain ps mixed_img mixed_lbl pw pl_cl feat lbls est where
    gen: "generate_pseudo (pseudo_threshold self) (psweight_ignore_top self)
             (psweight_ignore_bottom self) (teacher_softmax ext timg) = Inr ps"
    and mixing: "apply_mixing (augmentation ext) im gt timg (get_class_masks ext gt)
             (pseudo_label ps) (pseudo_weight ps) = Inr (mixed_img, mixed_lbl, pw)"
    and view: "view_2_1_512_512 (pseudo_label ps) = Inr pl_cl"
    and cp: "contrast_preparations ext pl_cl = (feat, lbls)"
    and up: "update_proto (feat_distributions self) feat lbls = (None, est)"
    and bank: "MemoryBank est \<noteq> NoAttribute" and dbg: "debug_img_interval self \<noteq> 0"
    and lv: "lv = dict_update (source_log_vars ext self im gt)
                  (snd (parse_losses ext
                     (add_prefix ext (student_mix_losses ext mixed_img mixed_lbl pw) ''mix'')))"
    and self': "self' = self\<lparr>local_iter := local_iter self + 1, feat_distributions := est,
                        backward_calls := backward_calls self @ source_calls ext self im gt @
                          [(MixSeg, add_prefix ext (student_mix_losses ext mixed_img mixed_lbl pw) ''mix'')] @
                          (if start_distribution_iter self \<le> local_iter self
                           then [(Contrastive, [(''contrastive loss'',
                                    bank_contrastive ext pl_cl (MemoryBank est))])]
                           else []) @
                          [(Distill, [(''KL_div_loss_trg'', pseudo_weight_scalar ps * kl_div ext)])]\<rparr>"
    by blast
  have 1: "\<exists>cs. backward_calls self' = backward_calls self @ cs \<and>
               (Contrastive \<in> fst ` set cs \<longleftrightarrow> start_distribution_iter self \<le> local_iter self)"
    unfolding self' by (auto simp: source_calls_def)
  have 2: "r = Inr lv"
    if run: "forward_train (ext\<lparr>bank_contrastive := f\<rparr>) (self\<lparr>local_iter := n\<rparr>) im gt timg = (r, s)"
    for f n r s
  proof -
    let ?ext = "ext\<lparr>bank_contrastive := f\<rparr>" and ?self = "self\<lparr>local_iter := n\<rparr>"
    have "fst (forward_train ?ext ?self im gt timg) = Inr lv"
      apply (subst forward_train_success [where ext = ?ext and self = ?self and ps = ps
            and mixed_img = mixed_img and mixed_lbl = mixed_lbl and pw = pw and pl_cl = pl_cl
            and feat = feat and lbls = lbls and est = est])
      using gen mixing view cp up bank dbg
             apply (simp_all add: lv source_log_vars_def Let_def)
      done
    with run show ?thesis by simp
  qed
  from 1 2 show ?thesis by blast
qed

theorem contrastive_gate_witness:
  "forward_train ext0 (dacs0 (9/10) 50) tb2 gt2 tb2
     = (Inr lv0, snd (forward_train ext0 (dacs0 (9/10) 50) tb2 gt2 tb2)) \<and>
   (\<exists>cs. backward_calls (snd (forward_train ext0 (dacs0 (9/10) 50) tb2 gt2 tb2))
            = backward_calls (dacs0 (9/10) 50) @ cs \<and>
         Contrastive \<in> fst ` set cs \<and>
         start_distribution_iter (dacs0 (9/10) 50) \<le> local_iter (dacs0 (9/10) 50)) \<and>
   fst (forward_train (ext0\<lparr>bank_contrastive := \<lambda>l b. 7\<rparr>) ((dacs0 (9/10) 50)\<lparr>local_iter := 0\<rparr>)
          tb2 gt2 tb2) = Inr lv0"
proof -
  let ?r = "forward_train ext0 (dacs0 (9/10) 50) tb2 gt2 tb2"
  let ?r' = "forward_train (ext0\<lparr>bank_contrastive := \<lambda>l b. 7\<rparr>) ((dacs0 (9/10) 50)\<lparr>local_iter := 0\<rparr>)
          tb2 gt2 tb2"
  have run: "?r = (Inr lv0, snd ?r)" by (simp add: step0)
  have run': "?r' = (fst ?r', snd ?r')" by simp
  have it: "start_distribution_iter (dacs0 (9/10) 50) \<le> local_iter (dacs0 (9/10) 50)"
    by (simp add: dacs0_fields)
  from contrastive_gate [OF run] it run'
  have "\<exists>cs. backward_calls (snd ?r) = backward_calls (dacs0 (9/10) 50) @ cs \<and>
             Contrastive \<in> fst ` set cs" and "fst ?r' = Inr lv0"
    by blast+
  with run it show ?thesis by blast
qed

text \<open>
  The claim C3 as the specification states it fails at iteration 50: the contrastive
  loss is back-propagated, and the returned dictionary has no entry for it.
\<close>

theorem contrastive_gate_counterexample:
  "fst (forward_train ext0 (dacs0 (9/10) 50) tb2 gt2 tb2) = Inr lv0 \<and>
   start_distribution_iter (dacs0 (9/10) 50) \<le> local_iter (dacs0 (9/10) 50) \<and>
   (Contrastive, [(''contrastive loss'', 3)])
     \<in> set (backward_calls (snd (forward_train ext0 (dacs0 (9/10) 50) tb2 gt2 tb2))) \<and>
   ''contrastive loss'' \<notin> fst ` set lv0"
  by (simp add: step0 dacs0_fields lv0_def)

section \<open>Claims on a batch without a confident pixel\<close>



end
